theory Spec2Isabelle
  imports Complex_Main "HOL-Library.Sublist" "HOL-Library.AList"
begin

section \<open>Python strings\<close>

text \<open>
  A Python character is modelled by a \<^typ>\<open>char\<close> holding its code point; texts are
  restricted to code points below 256. The string methods used by the two scripts
  (\<^verbatim>\<open>strip\<close>, \<^verbatim>\<open>startswith\<close>, \<^verbatim>\<open>split\<close>, \<^verbatim>\<open>replace\<close>, \<^verbatim>\<open>lower\<close>, \<^verbatim>\<open>in\<close>)
  are given their Python meaning on that range.
\<close>

text \<open>\<^verbatim>\<open>str.isspace\<close> on one character: code points 9-13, 28-32, 0x85 and 0xA0.\<close>

definition isspace :: "char \<Rightarrow> bool" where
  "isspace c =
     (let n = (of_char c :: nat)
      in (9 \<le> n \<and> n \<le> 13) \<or> (28 \<le> n \<and> n \<le> 32) \<or> n = 133 \<or> n = 160)"

text \<open>\<^verbatim>\<open>s.strip()\<close>: leading and trailing whitespace removed.\<close>

definition strip :: "string \<Rightarrow> string" where
  "strip s = rev (dropWhile isspace (rev (dropWhile isspace s)))"

text \<open>\<^verbatim>\<open>s.startswith(p)\<close>.\<close>

definition startswith :: "string \<Rightarrow> string \<Rightarrow> bool" where
  "startswith s p = prefix p s"

text \<open>\<^verbatim>\<open>s.split(c)\<close> for a one-character separator: never the empty list.\<close>

fun split :: "string \<Rightarrow> char \<Rightarrow> string list" where
  "split [] c = [[]]"
| "split (x # xs) c =
     (if x = c then [] # split xs c
      else (case split xs c of l # ls \<Rightarrow> (x # l) # ls | [] \<Rightarrow> [[x]]))"

text \<open>
  \<^verbatim>\<open>s.replace(old, new)\<close>: every non-overlapping occurrence of \<open>old\<close>, scanning from
  the left. For an empty \<open>old\<close> Python inserts \<open>new\<close> before every character and at
  the end.
\<close>

function replace :: "string \<Rightarrow> string \<Rightarrow> string \<Rightarrow> string" where
  "replace s old new =
     (if old = [] then new @ concat (map (\<lambda>c. c # new) s)
      else if s = [] then []
      else if prefix old s then new @ replace (drop (length old) s) old new
      else hd s # replace (tl s) old new)"
  by pat_completeness auto
termination
  by (relation "measure (\<lambda>(s, old, new). length s)") auto

declare replace.simps [simp del]

text \<open>\<^verbatim>\<open>str.lower\<close> on one character: A-Z and the Latin-1 capitals move up by 32.\<close>

definition lower_char :: "char \<Rightarrow> char" where
  "lower_char c =
     (let n = (of_char c :: nat)
      in if (65 \<le> n \<and> n \<le> 90) \<or> (192 \<le> n \<and> n \<le> 222 \<and> n \<noteq> 215)
         then char_of (n + 32) else c)"

definition lower :: "string \<Rightarrow> string" where
  "lower s = map lower_char s"

text \<open>\<^verbatim>\<open>a in b\<close> on strings: \<open>a\<close> occurs in \<open>b\<close> as a contiguous substring.\<close>

definition contains :: "string \<Rightarrow> string \<Rightarrow> bool" where
  "contains b a = sublist a b"

section \<open>The file system seen by the scripts\<close>

type_synonym path = string

text \<open>
  \<open>read_text p\<close> is \<^verbatim>\<open>open(p, 'r', encoding='utf-8').read()\<close>: \<open>Inr\<close> the text, or
  \<open>Inl\<close> the message of the exception raised by opening or decoding.
  \<open>rglob root pat\<close> is the sequence \<^verbatim>\<open>Path(root).rglob(pat)\<close> yields, in the order
  the platform yields it. \<open>parent\<close> and \<open>relative_to\<close> are the path operations of
  \<^verbatim>\<open>pathlib\<close>; \<open>relative_to file dir\<close> is \<^verbatim>\<open>str(file.relative_to(dir))\<close>.
  \<open>writable p\<close> tells whether \<^verbatim>\<open>open(p, 'w')\<close> succeeds.
\<close>

record filesystem =
  exists :: "path \<Rightarrow> bool"
  read_text :: "path \<Rightarrow> string + string"
  rglob :: "path \<Rightarrow> string \<Rightarrow> path list"
  parent :: "path \<Rightarrow> path"
  relative_to :: "path \<Rightarrow> path \<Rightarrow> string"
  writable :: "path \<Rightarrow> bool"

text \<open>\<^verbatim>\<open>Path(a) / b\<close>: the current directory \<^verbatim>\<open>.\<close> disappears from the joined path.\<close>

definition joinpath :: "path \<Rightarrow> string \<Rightarrow> path" where
  "joinpath a b = (if a = ''.'' then b else a @ ''/'' @ b)"

section \<open>Symbol extraction: \<^verbatim>\<open>analyze_python_module\<close>\<close>

text \<open>The dictionary returned by \<^verbatim>\<open>analyze_python_module\<close>; \<open>error\<close> is the optional key.\<close>

record analysis =
  "functions" :: "string list"
  classes :: "string list"
  path :: string
  error :: "string option"

text \<open>
  One iteration of the loop over the lines, on the pair of lists
  \<open>(functions, classes)\<close>.
\<close>

definition analyze_line :: "string \<Rightarrow> string list \<times> string list \<Rightarrow> string list \<times> string list" where
  "analyze_line raw acc =
     (let line = strip raw; functions = fst acc; classes = snd acc
      in if startswith line ''def '' \<and> \<not> startswith line ''def _'' then
           (let func_name = replace (hd (split line CHR ''('')) ''def '' ''''
            in (functions @ [func_name], classes))
         else if startswith line ''class '' then
           (let class_name = replace (hd (split (hd (split line CHR ''('')) CHR '':'')) ''class '' ''''
            in (functions, classes @ [class_name]))
         else (functions, classes))"

text \<open>The body of the \<^verbatim>\<open>try\<close> block: the read may raise, nothing after it does.\<close>

definition analyze_body :: "filesystem \<Rightarrow> path \<Rightarrow> string + analysis" where
  "analyze_body fs py_file =
     (case read_text fs py_file of
        Inl e \<Rightarrow> Inl e
      | Inr content \<Rightarrow>
          (let (functions, classes) = foldl (\<lambda>acc line. analyze_line line acc) ([], []) (split content (CHR 0x0A))
           in Inr \<lparr>functions = functions, classes = classes, path = py_file, error = None\<rparr>))"

text \<open>\<^verbatim>\<open>try: ... except Exception as e: return {..., 'error': str(e)}\<close>.\<close>

definition analyze_python_module :: "filesystem \<Rightarrow> path \<Rightarrow> analysis" where
  "analyze_python_module fs py_file =
     (case analyze_body fs py_file of
        Inr a \<Rightarrow> a
      | Inl e \<Rightarrow> \<lparr>functions = [], classes = [], path = py_file, error = Some e\<rparr>)"

section \<open>Equivalence search: \<^verbatim>\<open>check_cpp_equivalent\<close>\<close>

text \<open>
  A \<^verbatim>\<open>for\<close> loop whose body may \<^verbatim>\<open>return\<close>: \<open>Some r\<close> is the value returned by the
  first iteration that returns, \<open>None\<close> means the loop ran to its end.
\<close>

fun for_return :: "'a list \<Rightarrow> ('a \<Rightarrow> 'b option) \<Rightarrow> 'b option" where
  "for_return [] body = None"
| "for_return (x # xs) body =
     (case body x of Some r \<Rightarrow> Some r | None \<Rightarrow> for_return xs body)"

text \<open>
  \<^verbatim>\<open>test_verification.py\<close>: both roots, each searched for both patterns when it
  exists; a file that cannot be read is skipped (\<^verbatim>\<open>except: continue\<close>).
\<close>

definition check_cpp_equivalent :: "filesystem \<Rightarrow> string \<Rightarrow> path \<Rightarrow> path \<Rightarrow> bool \<times> string" where
  "check_cpp_equivalent fs item_name cpp_headers_dir cpp_src_dir =
     (case for_return [cpp_headers_dir, cpp_src_dir] (\<lambda>root.
             if exists fs root then
               for_return [''*.hpp'', ''*.cpp''] (\<lambda>ext.
                 for_return (rglob fs root ext) (\<lambda>file.
                   case read_text fs file of
                     Inl e \<Rightarrow> None
                   | Inr text \<Rightarrow>
                       if contains (lower text) (lower item_name)
                       then Some (True, ''Found in '' @ relative_to fs file (parent fs root))
                       else None))
             else None) of
        Some r \<Rightarrow> r
      | None \<Rightarrow> (False, ''NOT FOUND''))"

text \<open>
  \<^verbatim>\<open>TO_REMOVE/detailed_verification.py\<close>: the headers root is searched for
  \<^verbatim>\<open>*.hpp\<close>, then the sources root for \<^verbatim>\<open>*.cpp\<close>.
\<close>

definition check_cpp_equivalent_detailed :: "filesystem \<Rightarrow> string \<Rightarrow> path \<Rightarrow> path \<Rightarrow> bool \<times> string" where
  "check_cpp_equivalent_detailed fs item_name cpp_headers_dir cpp_src_dir =
     (case for_return (rglob fs cpp_headers_dir ''*.hpp'') (\<lambda>hpp_file.
             case read_text fs hpp_file of
               Inl e \<Rightarrow> None
             | Inr text \<Rightarrow>
                 (let content = lower text
                  in if contains content (lower item_name)
                     then Some (True, ''Found in '' @ relative_to fs hpp_file cpp_headers_dir)
                     else None)) of
        Some r \<Rightarrow> r
      | None \<Rightarrow>
          (case for_return (rglob fs cpp_src_dir ''*.cpp'') (\<lambda>cpp_file.
                  case read_text fs cpp_file of
                    Inl e \<Rightarrow> None
                  | Inr text \<Rightarrow>
                      (let content = lower text
                       in if contains content (lower item_name)
                          then Some (True, ''Found in '' @ relative_to fs cpp_file cpp_src_dir)
                          else None)) of
             Some r \<Rightarrow> r
           | None \<Rightarrow> (False, ''Not found'')))"

section \<open>Serialising the missing items: \<^verbatim>\<open>json.dump\<close>\<close>

text \<open>An entry \<^verbatim>\<open>{'name': ..., 'module': ...}\<close> of a missing list.\<close>

record missing_item =
  entry_name :: string
  entry_module :: string

definition hexdigit :: "nat \<Rightarrow> char" where
  "hexdigit d = (if d < 10 then char_of (48 + d) else char_of (87 + d))"

text \<open>
  One character inside a JSON string as \<^verbatim>\<open>json.dump\<close> writes it with its default
  \<^verbatim>\<open>ensure_ascii=True\<close>: the short escapes, the characters from the space to the
  tilde as they are, every other one as \<^verbatim>\<open>\uXXXX\<close>.
\<close>

definition escape_char :: "char \<Rightarrow> string" where
  "escape_char c =
     (let n = (of_char c :: nat)
      in if c = CHR 0x5C then [CHR 0x5C, CHR 0x5C]
         else if c = CHR 0x22 then [CHR 0x5C, CHR 0x22]
         else if c = CHR 0x08 then [CHR 0x5C, CHR ''b'']
         else if c = CHR 0x0C then [CHR 0x5C, CHR ''f'']
         else if c = CHR 0x0A then [CHR 0x5C, CHR ''n'']
         else if c = CHR 0x0D then [CHR 0x5C, CHR ''r'']
         else if c = CHR 0x09 then [CHR 0x5C, CHR ''t'']
         else if 32 \<le> n \<and> n \<le> 126 then [c]
         else [CHR 0x5C, CHR ''u'', hexdigit (n div 4096 mod 16), hexdigit (n div 256 mod 16),
               hexdigit (n div 16 mod 16), hexdigit (n mod 16)])"

definition encode_string :: "string \<Rightarrow> string" where
  "encode_string s = [CHR 0x22] @ concat (map escape_char s) @ [CHR 0x22]"

text \<open>\<^verbatim>\<open>sep.join(xs)\<close>.\<close>

fun join :: "string \<Rightarrow> string list \<Rightarrow> string" where
  "join sep [] = []"
| "join sep [x] = x"
| "join sep (x # y # ys) = x @ sep @ join sep (y # ys)"

definition encode_item :: "missing_item \<Rightarrow> string" where
  "encode_item item =
     ''{'' @ encode_string ''name'' @ '': '' @ encode_string (entry_name item) @ '', ''
           @ encode_string ''module'' @ '': '' @ encode_string (entry_module item) @ ''}''"

text \<open>The text \<^verbatim>\<open>json.dump(items, f)\<close> writes for a list of such entries.\<close>

definition json_dump :: "missing_item list \<Rightarrow> string" where
  "json_dump items = ''['' @ join '', '' (map encode_item items) @ '']''"

section \<open>The run of \<^verbatim>\<open>test_verification.py\<close>\<close>

text \<open>A triple \<^verbatim>\<open>(item, has_cpp, location)\<close>.\<close>

type_synonym item_result = "string \<times> bool \<times> string"

text \<open>The value stored at \<^verbatim>\<open>verification_results[module]\<close>.\<close>

record module_results =
  function_results :: "item_result list"
  class_results :: "item_result list"

text \<open>The dictionary \<^verbatim>\<open>missing_items\<close>, with its keys \<^verbatim>\<open>'functions'\<close> and \<^verbatim>\<open>'classes'\<close>.\<close>

record missing_items =
  missing_functions :: "missing_item list"
  missing_classes :: "missing_item list"

text \<open>
  The state the loop over the modules changes. \<open>verification_results\<close> is a
  dictionary: an association list in insertion order, updated by key.
\<close>

record run_state =
  verification_results :: "(string \<times> module_results) list"
  missing :: missing_items

definition core_modules :: "string list" where
  "core_modules = [''activationsfunc.py'', ''mat_gen.py'', ''node.py'', ''model.py'', ''ops.py'',
                   ''observables.py'', ''type.py'']"

definition base_dir :: path where "base_dir = ''.''"
definition reservoirpy_dir :: path where "reservoirpy_dir = joinpath (joinpath base_dir ''TO_REMOVE'') ''reservoirpy''"
definition cpp_headers_dir :: path where "cpp_headers_dir = joinpath base_dir ''include''"
definition cpp_src_dir :: path where "cpp_src_dir = joinpath base_dir ''src''"

text \<open>
  The body of the loop over \<^verbatim>\<open>analysis['functions']\<close>, and of the one over
  \<^verbatim>\<open>analysis['classes']\<close>, which differs only in the two lists it extends: the
  results of the module and the missing list of the kind.
\<close>

definition check_item :: "filesystem \<Rightarrow> string \<Rightarrow> item_result list \<times> missing_item list \<Rightarrow> string
    \<Rightarrow> item_result list \<times> missing_item list" where
  "check_item fs module' acc item =
     (let (results, missing_list) = acc;
          (has_cpp, location) = check_cpp_equivalent fs item cpp_headers_dir cpp_src_dir
      in (results @ [(item, has_cpp, location)],
          if \<not> has_cpp then missing_list @ [\<lparr>entry_name = item, entry_module = module'\<rparr>]
          else missing_list))"

text \<open>The body of the loop over \<^verbatim>\<open>core_modules\<close>.\<close>

definition check_module :: "filesystem \<Rightarrow> run_state \<Rightarrow> string \<Rightarrow> run_state" where
  "check_module fs st module' =
     (let module_path = joinpath reservoirpy_dir module'
      in if exists fs module_path then
           (let analysis = analyze_python_module fs module_path
            in if error analysis \<noteq> None then st
               else
                 (let (function_results, missing_fs) =
                        foldl (check_item fs module') ([], missing_functions (missing st)) (functions analysis);
                      (class_results, missing_cs) =
                        foldl (check_item fs module') ([], missing_classes (missing st)) (classes analysis)
                  in \<lparr>verification_results =
                        AList.update module'
                          \<lparr>function_results = function_results, class_results = class_results\<rparr>
                          (verification_results st),
                      missing = \<lparr>missing_functions = missing_fs, missing_classes = missing_cs\<rparr>\<rparr>))
         else st)"

definition initial_state :: run_state where
  "initial_state =
     \<lparr>verification_results = [], missing = \<lparr>missing_functions = [], missing_classes = []\<rparr>\<rparr>"

text \<open>The state after the loop over \<^verbatim>\<open>core_modules\<close>.\<close>

definition analyzed :: "filesystem \<Rightarrow> run_state" where
  "analyzed fs = foldl (check_module fs) initial_state core_modules"

text \<open>The summary counters, from the values of \<^verbatim>\<open>verification_results\<close>.\<close>

definition total_functions :: "(string \<times> module_results) list \<Rightarrow> nat" where
  "total_functions vr = sum_list (map (\<lambda>result. length (function_results result)) (map snd vr))"

definition implemented_functions :: "(string \<times> module_results) list \<Rightarrow> nat" where
  "implemented_functions vr =
     sum_list [1. result \<leftarrow> map snd vr, (func, has_cpp, location) \<leftarrow> function_results result, has_cpp]"

definition total_classes :: "(string \<times> module_results) list \<Rightarrow> nat" where
  "total_classes vr = sum_list (map (\<lambda>result. length (class_results result)) (map snd vr))"

definition implemented_classes :: "(string \<times> module_results) list \<Rightarrow> nat" where
  "implemented_classes vr =
     sum_list [1. result \<leftarrow> map snd vr, (cls, has_cpp, location) \<leftarrow> class_results result, has_cpp]"

text \<open>
  Python's \<^verbatim>\<open>/\<close> on two integers is a floating-point division; the percentage is
  modelled by the exact rational it approximates.
\<close>

definition coverage_percentage :: "(string \<times> module_results) list \<Rightarrow> rat" where
  "coverage_percentage vr =
     (if total_functions vr + total_classes vr > 0
      then of_nat (implemented_functions vr + implemented_classes vr)
             / of_nat (total_functions vr + total_classes vr) * 100
      else 100)"

definition total_missing :: "missing_items \<Rightarrow> nat" where
  "total_missing mi = length (missing_functions mi) + length (missing_classes mi)"

text \<open>
  \<^verbatim>\<open>with open(p, 'w') as f: json.dump(items, f)\<close>: the file is truncated and holds
  the dumped text afterwards, or the \<^verbatim>\<open>open\<close> raises.
\<close>

type_synonym exn = string

definition write_json :: "filesystem \<Rightarrow> path \<Rightarrow> missing_item list \<Rightarrow> exn + filesystem" where
  "write_json fs p items =
     (if writable fs p
      then Inr (fs\<lparr>read_text := (read_text fs)(p := Inr (json_dump items)),
                  exists := (exists fs)(p := True)\<rparr>)
      else Inl (''OSError: '' @ p))"

text \<open>
  \<^verbatim>\<open>main()\<close>: \<open>Inl\<close> the exception that leaves it, or \<open>Inr\<close> its return value with
  the file system it leaves behind. The lines it prints are not modelled.
\<close>

definition main :: "filesystem \<Rightarrow> exn + bool \<times> filesystem" where
  "main fs =
     (let st = analyzed fs;
          missing_items = missing st
      in case write_json fs ''missing_functions.json'' (missing_functions missing_items) of
           Inl e \<Rightarrow> Inl e
         | Inr fs1 \<Rightarrow>
             (case write_json fs1 ''missing_classes.json'' (missing_classes missing_items) of
                Inl e \<Rightarrow> Inl e
              | Inr fs2 \<Rightarrow>
                  (let success = (coverage_percentage (verification_results st) \<ge> 90)
                   in if success then Inr (True, fs2) else Inr (False, fs2))))"

text \<open>How the process ends: \<^verbatim>\<open>sys.exit(code)\<close>, or an exception nobody caught.\<close>

datatype process_end = Exit nat | Unhandled exn

text \<open>
  The \<^verbatim>\<open>__main__\<close> block of \<^verbatim>\<open>test_verification.py\<close>, on the outcome of the call
  \<^verbatim>\<open>main()\<close>: \<^verbatim>\<open>success = main(); sys.exit(0 if success else 1)\<close>.
\<close>

definition test_verification_entry :: "exn + bool \<Rightarrow> process_end" where
  "test_verification_entry outcome =
     (case outcome of
        Inl e \<Rightarrow> Unhandled e
      | Inr success \<Rightarrow> Exit (if success then 0 else 1))"

definition test_verification_script :: "filesystem \<Rightarrow> process_end" where
  "test_verification_script fs = test_verification_entry (map_sum id fst (main fs))"

section \<open>The run of \<^verbatim>\<open>TO_REMOVE/detailed_verification.py\<close>\<close>

definition base_dir_detailed :: path where "base_dir_detailed = ''/workspaces/reservoir-cpp''"
definition reservoirpy_dir_detailed :: path where "reservoirpy_dir_detailed = joinpath base_dir_detailed ''reservoirpy''"
definition cpp_headers_dir_detailed :: path where "cpp_headers_dir_detailed = joinpath base_dir_detailed ''include''"
definition cpp_src_dir_detailed :: path where "cpp_src_dir_detailed = joinpath base_dir_detailed ''src''"

text \<open>The body of the loops over the functions and over the classes of a module.\<close>

definition check_item_detailed :: "filesystem \<Rightarrow> item_result list \<Rightarrow> string \<Rightarrow> item_result list" where
  "check_item_detailed fs results item =
     (let (has_cpp, location) =
            check_cpp_equivalent_detailed fs item cpp_headers_dir_detailed cpp_src_dir_detailed
      in results @ [(item, has_cpp, location)])"

definition check_module_detailed ::
    "filesystem \<Rightarrow> (string \<times> module_results) list \<Rightarrow> string \<Rightarrow> (string \<times> module_results) list" where
  "check_module_detailed fs results module' =
     (let module_path = joinpath reservoirpy_dir_detailed module'
      in if exists fs module_path then
           (let analysis = analyze_python_module fs module_path
            in if error analysis \<noteq> None then results
               else
                 (let function_results = foldl (check_item_detailed fs) [] (functions analysis);
                      class_results = foldl (check_item_detailed fs) [] (classes analysis)
                  in AList.update module'
                       \<lparr>function_results = function_results, class_results = class_results\<rparr>
                       results))
         else results)"

definition analyzed_detailed :: "filesystem \<Rightarrow> (string \<times> module_results) list" where
  "analyzed_detailed fs = foldl (check_module_detailed fs) [] core_modules"

text \<open>
  \<^verbatim>\<open>main()\<close> of the detailed script. Its section on the node types only prints and
  is left out with the other printed lines. The comparison with \<^verbatim>\<open>0.9 * total\<close> is
  modelled in exact rationals.
\<close>

definition main_detailed :: "filesystem \<Rightarrow> bool" where
  "main_detailed fs =
     (let vr = analyzed_detailed fs
      in if (of_nat (implemented_functions vr + implemented_classes vr) :: rat)
              \<ge> (9 / 10) * of_nat (total_functions vr + total_classes vr)
         then True else False)"

text \<open>
  The \<^verbatim>\<open>__main__\<close> block of the detailed script, on the outcome of the call
  \<^verbatim>\<open>main()\<close>: the messages it prints (without their leading pictograph) and the
  end of the process. \<^verbatim>\<open>finally: sys.exit(0)\<close> ends every path.
\<close>

definition detailed_verification_entry :: "exn + bool \<Rightarrow> string list \<times> process_end" where
  "detailed_verification_entry outcome =
     (case outcome of
        Inr success \<Rightarrow>
          (if \<not> success
           then ([''Functionality verification found missing items, but exiting successfully.''], Exit 0)
           else ([''Functionality verification completed successfully.''], Exit 0))
      | Inl e \<Rightarrow>
          ([''Error encountered during functionality verification: '' @ e,
            ''Exiting successfully despite error - artifact generation continues.''], Exit 0))"

definition detailed_verification_script :: "filesystem \<Rightarrow> string list \<times> process_end" where
  "detailed_verification_script fs = detailed_verification_entry (Inr (main_detailed fs))"

section \<open>Notions used to state the properties\<close>

text \<open>The candidate files in the order the search visits them, each with its root.\<close>

definition candidate_files :: "filesystem \<Rightarrow> path \<Rightarrow> path \<Rightarrow> (path \<times> path) list" where
  "candidate_files fs hdr src =
     concat (map (\<lambda>root. if exists fs root
                           then concat (map (\<lambda>ext. map (Pair root) (rglob fs root ext)) [''*.hpp'', ''*.cpp''])
                           else [])
                 [hdr, src])"

definition candidate_files_detailed :: "filesystem \<Rightarrow> path \<Rightarrow> path \<Rightarrow> (path \<times> path) list" where
  "candidate_files_detailed fs hdr src =
     map (Pair hdr) (rglob fs hdr ''*.hpp'') @ map (Pair src) (rglob fs src ''*.cpp'')"

text \<open>The file can be read and its lower-cased text has the lower-cased name as a substring.\<close>

definition name_in_file :: "filesystem \<Rightarrow> string \<Rightarrow> path \<Rightarrow> bool" where
  "name_in_file fs item_name file =
     (case read_text fs file of Inl e \<Rightarrow> False | Inr text \<Rightarrow> sublist (lower item_name) (lower text))"

text \<open>The file can be read.\<close>

definition readable :: "filesystem \<Rightarrow> path \<Rightarrow> bool" where
  "readable fs file = (case read_text fs file of Inl e \<Rightarrow> False | Inr text \<Rightarrow> True)"

section \<open>A concrete file system\<close>

text \<open>
  Two readable reference modules and one that cannot be decoded; a headers directory
  whose first file cannot be read; no sources directory.
\<close>

definition node_py :: string where
  "node_py = ''def alpha(x):'' @ [CHR 0x0A] @ ''    def zeta(self):'' @ [CHR 0x0A]
             @ ''class Gamma(Base):'' @ [CHR 0x0A]"

definition ops_py :: string where
  "ops_py = ''  def foo(x):'' @ [CHR 0x0A] @ ''def _hidden(x):'' @ [CHR 0x0A] @ ''def zeta(y): '' @ [CHR 0x0A]
            @ ''class Bar(Base):'' @ [CHR 0x0A] @ ''class _Priv:'' @ [CHR 0x0A] @ ''def (''"

definition example_fs :: filesystem where
  "example_fs =
     \<lparr>exists = (\<lambda>p. p = ''TO_REMOVE/reservoirpy/node.py'' \<or> p = ''TO_REMOVE/reservoirpy/ops.py''
                     \<or> p = ''TO_REMOVE/reservoirpy/model.py'' \<or> p = ''include''),
      read_text = (\<lambda>p. if p = ''TO_REMOVE/reservoirpy/node.py'' then Inr node_py
                        else if p = ''TO_REMOVE/reservoirpy/ops.py'' then Inr ops_py
                        else if p = ''include/a.hpp'' then Inr ''ALPHA implementation; FOO; addition''
                        else if p = ''include/b.hpp'' then Inr ''Gamma class''
                        else Inl ''cannot read''),
      rglob = (\<lambda>dir ext. if dir = ''include'' \<and> ext = ''*.hpp''
                          then [''include/bad.hpp'', ''include/a.hpp'', ''include/b.hpp''] else []),
      parent = (\<lambda>p. ''.''),
      relative_to = (\<lambda>file dir. file),
      writable = (\<lambda>p. True)\<rparr>"

text \<open>A file system without any of the reference modules.\<close>

definition empty_fs :: filesystem where
  "empty_fs = example_fs\<lparr>exists := (\<lambda>p. False)\<rparr>"

text \<open>The same files in a directory where no file can be created.\<close>

definition readonly_fs :: filesystem where
  "readonly_fs = example_fs\<lparr>writable := (\<lambda>p. False)\<rparr>"

section \<open>Notions used to state the properties of a run\<close>

text \<open>The search of \<^verbatim>\<open>main\<close> finds the item.\<close>

definition has_cpp_equivalent :: "filesystem \<Rightarrow> string \<Rightarrow> bool" where
  "has_cpp_equivalent fs item = fst (check_cpp_equivalent fs item cpp_headers_dir cpp_src_dir)"

text \<open>The module exists and can be read: the loop analyses it.\<close>

definition analyzable :: "filesystem \<Rightarrow> string \<Rightarrow> bool" where
  "analyzable fs m =
     (exists fs (joinpath reservoirpy_dir m)
      \<and> error (analyze_python_module fs (joinpath reservoirpy_dir m)) = None)"

text \<open>
  The symbols of one kind extracted from a module, each with the module;
  \<open>kind\<close> is \<^const>\<open>functions\<close> or \<^const>\<open>classes\<close>.
\<close>

definition extracted_from :: "(analysis \<Rightarrow> string list) \<Rightarrow> filesystem \<Rightarrow> string \<Rightarrow> (string \<times> string) list" where
  "extracted_from kind fs m =
     map (\<lambda>item. (item, m)) (kind (analyze_python_module fs (joinpath reservoirpy_dir m)))"

text \<open>The symbols of one kind extracted during the run over the modules, in the order of the run.\<close>

definition extracted :: "(analysis \<Rightarrow> string list) \<Rightarrow> filesystem \<Rightarrow> string list \<Rightarrow> (string \<times> string) list" where
  "extracted kind fs ms = concat (map (extracted_from kind fs) (filter (analyzable fs) ms))"

text \<open>The entry of a missing list for an extracted symbol.\<close>

definition entry_of :: "string \<times> string \<Rightarrow> missing_item" where
  "entry_of p = \<lparr>entry_name = fst p, entry_module = snd p\<rparr>"

text \<open>The results the loop stores for a module.\<close>

definition results_of_module :: "filesystem \<Rightarrow> string \<Rightarrow> module_results" where
  "results_of_module fs m =
     (let analysis = analyze_python_module fs (joinpath reservoirpy_dir m)
      in \<lparr>function_results =
            map (\<lambda>item. (item, check_cpp_equivalent fs item cpp_headers_dir cpp_src_dir)) (functions analysis),
          class_results =
            map (\<lambda>item. (item, check_cpp_equivalent fs item cpp_headers_dir cpp_src_dir)) (classes analysis)\<rparr>)"

section \<open>Reading the artifacts back: \<^verbatim>\<open>json.load\<close>\<close>

datatype token = LBracket | RBracket | LBrace | RBrace | Comma | Colon | Str string

text \<open>
  The states of the scanner: between tokens; inside a string, with the characters read
  so far, last first; after a backslash; inside \<^verbatim>\<open>\uXXXX\<close>, with the value of the digits
  read and the number of digits still to read.
\<close>

datatype scan_state = Between | InString string | Escape string | Hex string nat nat

definition unhex :: "char \<Rightarrow> nat option" where
  "unhex c =
     (let n = (of_char c :: nat)
      in if 48 \<le> n \<and> n \<le> 57 then Some (n - 48)
         else if 97 \<le> n \<and> n \<le> 102 then Some (n - 87)
         else if 65 \<le> n \<and> n \<le> 70 then Some (n - 55)
         else None)"

text \<open>
  The tokens of a JSON text made of brackets, braces, commas, colons and strings, as
  the decoder of \<^verbatim>\<open>json\<close> reads them: blanks between tokens are skipped, a raw control
  character inside a string is an error, the escapes are decoded. \<open>None\<close> is a
  decoding error, or a text with another kind of value, or an escape beyond the
  modelled code points.
\<close>

fun scan :: "scan_state \<Rightarrow> string \<Rightarrow> token list option" where
  "scan Between [] = Some []"
| "scan Between (c # cs) =
     (if c = CHR ''['' then map_option ((#) LBracket) (scan Between cs)
      else if c = CHR '']'' then map_option ((#) RBracket) (scan Between cs)
      else if c = CHR ''{'' then map_option ((#) LBrace) (scan Between cs)
      else if c = CHR ''}'' then map_option ((#) RBrace) (scan Between cs)
      else if c = CHR '','' then map_option ((#) Comma) (scan Between cs)
      else if c = CHR '':'' then map_option ((#) Colon) (scan Between cs)
      else if c = CHR '' '' \<or> c = CHR 0x09 \<or> c = CHR 0x0A \<or> c = CHR 0x0D then scan Between cs
      else if c = CHR 0x22 then scan (InString []) cs
      else None)"
| "scan (InString acc) [] = None"
| "scan (InString acc) (c # cs) =
     (if c = CHR 0x22 then map_option ((#) (Str (rev acc))) (scan Between cs)
      else if c = CHR 0x5C then scan (Escape acc) cs
      else if (of_char c :: nat) < 32 then None
      else scan (InString (c # acc)) cs)"
| "scan (Escape acc) [] = None"
| "scan (Escape acc) (c # cs) =
     (if c = CHR 0x22 then scan (InString (CHR 0x22 # acc)) cs
      else if c = CHR 0x5C then scan (InString (CHR 0x5C # acc)) cs
      else if c = CHR ''/'' then scan (InString (CHR ''/'' # acc)) cs
      else if c = CHR ''b'' then scan (InString (CHR 0x08 # acc)) cs
      else if c = CHR ''f'' then scan (InString (CHR 0x0C # acc)) cs
      else if c = CHR ''n'' then scan (InString (CHR 0x0A # acc)) cs
      else if c = CHR ''r'' then scan (InString (CHR 0x0D # acc)) cs
      else if c = CHR ''t'' then scan (InString (CHR 0x09 # acc)) cs
      else if c = CHR ''u'' then scan (Hex acc 0 4) cs
      else None)"
| "scan (Hex acc n k) [] = None"
| "scan (Hex acc n k) (c # cs) =
     (case unhex c of
        None \<Rightarrow> None
      | Some d \<Rightarrow>
          if k \<le> 1 then (if 16 * n + d < 256 then scan (InString (char_of (16 * n + d) # acc)) cs else None)
          else scan (Hex acc (16 * n + d) (k - 1)) cs)"

text \<open>The members of an object after its opening brace, up to its closing brace.\<close>

fun parse_members :: "token list \<Rightarrow> ((string \<times> string) list \<times> token list) option" where
  "parse_members (Str k # Colon # Str v # Comma # ts) =
     map_option (apfst ((#) (k, v))) (parse_members ts)"
| "parse_members (Str k # Colon # Str v # RBrace # ts) = Some ([(k, v)], ts)"
| "parse_members ts = None"

fun parse_object :: "token list \<Rightarrow> ((string \<times> string) list \<times> token list) option" where
  "parse_object (LBrace # RBrace # ts) = Some ([], ts)"
| "parse_object (LBrace # ts) = parse_members ts"
| "parse_object ts = None"

text \<open>
  The entry a decoded object is: the object must have the keys \<^verbatim>\<open>name\<close> and \<^verbatim>\<open>module\<close>
  and no other; of two members with the same key the later one counts, as in the
  dictionary the decoder builds.
\<close>

definition item_of_members :: "(string \<times> string) list \<Rightarrow> missing_item option" where
  "item_of_members ms =
     (if set (map fst ms) = {''name'', ''module''}
      then case (map_of (rev ms) ''name'', map_of (rev ms) ''module'') of
             (Some n, Some m) \<Rightarrow> Some \<lparr>entry_name = n, entry_module = m\<rparr>
           | _ \<Rightarrow> None
      else None)"

text \<open>The elements of an array after its opening bracket, up to the closing bracket that ends the text.\<close>

function parse_elements :: "token list \<Rightarrow> missing_item list option" where
  "parse_elements ts =
     (case parse_object ts of
        None \<Rightarrow> None
      | Some (ms, ts') \<Rightarrow>
          (case item_of_members ms of
             None \<Rightarrow> None
           | Some item \<Rightarrow>
               (case ts' of
                  [RBracket] \<Rightarrow> Some [item]
                | Comma # ts'' \<Rightarrow> map_option ((#) item) (parse_elements ts'')
                | _ \<Rightarrow> None)))"
  by pat_completeness auto
termination
proof (relation "measure length")
  show "wf (measure length)" by simp
next
  fix ts :: "token list" and x ms ts' item t ts''
  assume obj: "parse_object ts = Some x" and x: "(ms, ts') = x" and ts': "ts' = t # ts''"
  have members: "parse_members us = Some (ks, us') \<Longrightarrow> length us' < length us" for us ks us'
    by (induction us arbitrary: ks us' rule: parse_members.induct) (auto split: option.splits)
  have "parse_object us = Some (ks, us') \<Longrightarrow> length us' < length us" for us ks us'
    by (induction us rule: parse_object.induct) (auto dest: members)
  with obj x have "length ts' < length ts" by blast
  with ts' show "(ts'', ts) \<in> measure length" by simp
qed

declare parse_elements.simps [simp del]

text \<open>
  \<^verbatim>\<open>json.load\<close> on the text of an artifact: the list of entries it decodes to; \<open>None\<close>
  when the decoder raises or the value is not a list of such entries.
\<close>

definition json_load :: "string \<Rightarrow> missing_item list option" where
  "json_load text =
     (case scan Between text of
        None \<Rightarrow> None
      | Some ts \<Rightarrow>
          (case ts of
             [LBracket, RBracket] \<Rightarrow> Some []
           | LBracket # ts' \<Rightarrow> parse_elements ts'
           | _ \<Rightarrow> None))"

text \<open>The tokens of the text dumped for an entry, and for a list of entries.\<close>

definition tokens_of_item :: "missing_item \<Rightarrow> token list" where
  "tokens_of_item item =
     [LBrace, Str ''name'', Colon, Str (entry_name item), Comma,
      Str ''module'', Colon, Str (entry_module item), RBrace]"

fun tokens_of_items :: "missing_item list \<Rightarrow> token list" where
  "tokens_of_items [] = []"
| "tokens_of_items [item] = tokens_of_item item"
| "tokens_of_items (item # next_item # items) =
     tokens_of_item item @ Comma # tokens_of_items (next_item # items)"

text \<open>\<^verbatim>\<open>with open(p) as f: json.load(f)\<close>: the entries an artifact deserialises to.\<close>

definition load_artifact :: "filesystem \<Rightarrow> path \<Rightarrow> missing_item list option" where
  "load_artifact fs p = (case read_text fs p of Inl e \<Rightarrow> None | Inr text \<Rightarrow> json_load text)"

text \<open>The example file system with an artifact left by an earlier run.\<close>

definition stale_fs :: filesystem where
  "stale_fs = example_fs\<lparr>read_text := (read_text example_fs)
                (''missing_functions.json'' := Inr ''[{\"name\": \"old\", \"module\": \"old.py\"}]'')\<rparr>"

section \<open>What the specification states about the outcome\<close>

text \<open>
  The outcome the specification states for the report emitter: the percentage reaches
  the configured threshold.
\<close>

definition spec_pass :: "rat \<Rightarrow> rat \<Rightarrow> bool" where
  "spec_pass percentage threshold = (percentage \<ge> threshold)"

text \<open>
  The exit policies of the specification, and whether the process reports success
  under a policy for a given outcome.
\<close>

datatype exit_policy = Advisory | Gating

definition spec_exit_success :: "exit_policy \<Rightarrow> bool \<Rightarrow> bool" where
  "spec_exit_success policy pass = (case policy of Advisory \<Rightarrow> True | Gating \<Rightarrow> pass)"

section \<open>Extraction of the symbols\<close>

lemma split_not_Nil: "split s c \<noteq> []"
  by (induction s) (auto split: list.splits)

lemma hd_split: "hd (split s c) = takeWhile (\<lambda>x. x \<noteq> c) s"
  by (induction s) (auto split: list.splits simp: split_not_Nil)

lemma analyze_line_acc:
  "analyze_line raw acc =
     (fst acc @ fst (analyze_line raw ([], [])), snd acc @ snd (analyze_line raw ([], [])))"
  by (simp add: analyze_line_def Let_def)

lemma foldl_analyze_line:
  "foldl (\<lambda>acc line. analyze_line line acc) acc ls =
     (fst acc @ concat (map (\<lambda>l. fst (analyze_line l ([], []))) ls),
      snd acc @ concat (map (\<lambda>l. snd (analyze_line l ([], []))) ls))"
proof (induction ls arbitrary: acc)
  case Nil
  show ?case by simp
next
  case (Cons l ls)
  show ?case
    by (simp add: Cons.IH [of "analyze_line l acc"]) (subst analyze_line_acc, simp)+
qed

lemma name_foo: "replace (hd (split ''def foo(x):'' CHR ''('')) ''def '' '''' = ''foo''"
  by code_simp

lemma name_Bar: "replace (hd (split (hd (split ''class Bar(Base):'' CHR ''('')) CHR '':'')) ''class '' '''' = ''Bar''"
  by code_simp

lemma line_foo: "strip raw = ''def foo(x):'' \<Longrightarrow> analyze_line raw acc = (fst acc @ [''foo''], snd acc)"
  by (simp add: analyze_line_def Let_def startswith_def name_foo del: split.simps)

lemma line_hidden: "strip raw = ''def _hidden(x):'' \<Longrightarrow> analyze_line raw acc = acc"
  by (simp add: analyze_line_def Let_def startswith_def del: split.simps)

lemma line_Bar: "strip raw = ''class Bar(Base):'' \<Longrightarrow> analyze_line raw acc = (fst acc, snd acc @ [''Bar''])"
  by (simp add: analyze_line_def Let_def startswith_def name_Bar del: split.simps)

lemma line_private_class:
  "startswith (strip raw) ''class _'' \<Longrightarrow>
     \<exists>class_name. analyze_line raw acc = (fst acc, snd acc @ [class_name])"
  by (auto simp add: analyze_line_def Let_def startswith_def prefix_def)

lemma replace_self: "old \<noteq> [] \<Longrightarrow> replace old old new = new"
  by (subst replace.simps, simp, subst replace.simps, simp)

lemma line_empty_name:
  "strip raw = ''def ('' @ rest \<Longrightarrow> analyze_line raw acc = (fst acc @ [''''], snd acc)"
  by (simp add: analyze_line_def Let_def startswith_def replace_self)

section \<open>The search for a name\<close>

lemma for_return_find:
  "for_return xs (\<lambda>x. if P x then Some (g x) else None) = map_option g (find P xs)"
  by (induction xs) auto

lemma for_return_append:
  "for_return (xs @ ys) body = (case for_return xs body of Some r \<Rightarrow> Some r | None \<Rightarrow> for_return ys body)"
  by (induction xs) (auto split: option.splits)

lemma for_return_map: "for_return (map f xs) body = for_return xs (\<lambda>x. body (f x))"
  by (induction xs) (auto split: option.splits)

lemma file_body:
  "(case read_text fs file of Inl e \<Rightarrow> None
    | Inr text \<Rightarrow> if contains (lower text) (lower item_name) then Some (True, loc) else None)
   = (if name_in_file fs item_name file then Some (True, loc) else None)"
  by (simp add: name_in_file_def contains_def split: sum.splits)

lemma file_body_let:
  "(case read_text fs file of Inl e \<Rightarrow> None
    | Inr text \<Rightarrow> (let content = lower text in if contains content (lower item_name) then Some (True, loc) else None))
   = (if name_in_file fs item_name file then Some (True, loc) else None)"
  by (simp add: name_in_file_def contains_def split: sum.splits)

lemma for_return_concat_map:
  "for_return (concat (map f xs)) body = for_return xs (\<lambda>x. for_return (f x) body)"
  by (induction xs) (simp_all add: for_return_append split: option.splits)

lemma for_return_if:
  "for_return (if c then xs else []) body = (if c then for_return xs body else None)"
  by simp

lemma for_return_candidate_files:
  "for_return (candidate_files fs hdr src) (\<lambda>(dir, file). body dir file) =
     for_return [hdr, src] (\<lambda>dir.
       if exists fs dir
       then for_return [''*.hpp'', ''*.cpp''] (\<lambda>ext. for_return (rglob fs dir ext) (body dir))
       else None)"
  by (simp add: candidate_files_def for_return_append for_return_map split: option.splits)

lemma check_cpp_equivalent_traversal:
  "check_cpp_equivalent fs item_name hdr src =
     (case for_return (candidate_files fs hdr src)
             (\<lambda>(dir, file). if name_in_file fs item_name file
                              then Some (True, ''Found in '' @ relative_to fs file (parent fs dir)) else None) of
        Some r \<Rightarrow> r | None \<Rightarrow> (False, ''NOT FOUND''))"
  by (simp only: check_cpp_equivalent_def file_body for_return_candidate_files)

lemma for_return_pair_find:
  "for_return xs (\<lambda>(root, file). if P file then Some (g root file) else None)
     = map_option (\<lambda>(root, file). g root file) (find (\<lambda>(root, file). P file) xs)"
  by (induction xs) auto

lemma check_cpp_equivalent_find:
  "check_cpp_equivalent fs item_name hdr src =
     (case find (\<lambda>(root, file). name_in_file fs item_name file) (candidate_files fs hdr src) of
        Some (dir, file) \<Rightarrow> (True, ''Found in '' @ relative_to fs file (parent fs dir))
      | None \<Rightarrow> (False, ''NOT FOUND''))"
  by (simp add: check_cpp_equivalent_traversal for_return_pair_find split: option.splits)

lemma for_return_candidate_files_detailed:
  "for_return (candidate_files_detailed fs hdr src) (\<lambda>(dir, file). body dir file) =
     (case for_return (rglob fs hdr ''*.hpp'') (body hdr) of
        Some r \<Rightarrow> Some r
      | None \<Rightarrow> for_return (rglob fs src ''*.cpp'') (body src))"
  by (simp add: candidate_files_detailed_def for_return_append for_return_map split: option.splits)

lemma check_cpp_equivalent_detailed_traversal:
  "check_cpp_equivalent_detailed fs item_name hdr src =
     (case for_return (candidate_files_detailed fs hdr src)
             (\<lambda>(dir, file). if name_in_file fs item_name file
                              then Some (True, ''Found in '' @ relative_to fs file dir) else None) of
        Some r \<Rightarrow> r | None \<Rightarrow> (False, ''Not found''))"
  unfolding check_cpp_equivalent_detailed_def file_body_let for_return_candidate_files_detailed
  by (simp split: option.splits)

lemma check_cpp_equivalent_detailed_find:
  "check_cpp_equivalent_detailed fs item_name hdr src =
     (case find (\<lambda>(dir, file). name_in_file fs item_name file) (candidate_files_detailed fs hdr src) of
        Some (dir, file) \<Rightarrow> (True, ''Found in '' @ relative_to fs file dir)
      | None \<Rightarrow> (False, ''Not found''))"
  by (simp add: check_cpp_equivalent_detailed_traversal for_return_pair_find split: option.splits)

lemma find_pair_iff:
  "find (\<lambda>(dir, file). P file) xs \<noteq> None \<longleftrightarrow> (\<exists>file \<in> snd ` set xs. P file)"
  by (induction xs) auto

lemma found_iff:
  "fst (check_cpp_equivalent fs item_name hdr src)
     \<longleftrightarrow> (\<exists>file \<in> snd ` set (candidate_files fs hdr src). name_in_file fs item_name file)"
proof -
  have "fst (check_cpp_equivalent fs item_name hdr src)
     \<longleftrightarrow> find (\<lambda>(dir, file). name_in_file fs item_name file) (candidate_files fs hdr src) \<noteq> None"
    by (simp add: check_cpp_equivalent_find split: option.splits)
  then show ?thesis by (simp only: find_pair_iff)
qed

lemma found_detailed_iff:
  "fst (check_cpp_equivalent_detailed fs item_name hdr src)
     \<longleftrightarrow> (\<exists>file \<in> snd ` set (candidate_files_detailed fs hdr src). name_in_file fs item_name file)"
proof -
  have "fst (check_cpp_equivalent_detailed fs item_name hdr src)
     \<longleftrightarrow> find (\<lambda>(dir, file). name_in_file fs item_name file) (candidate_files_detailed fs hdr src) \<noteq> None"
    by (simp add: check_cpp_equivalent_detailed_find split: option.splits)
  then show ?thesis by (simp only: find_pair_iff)
qed

lemma lower_append: "lower (a @ b) = lower a @ lower b"
  by (simp add: lower_def)

lemma foo_in_FOO: "contains (lower (pre @ ''FOO'' @ post)) (lower ''foo'')"
proof -
  have "lower ''FOO'' = lower ''foo''" by code_simp
  then have "lower (pre @ ''FOO'' @ post) = lower pre @ lower ''foo'' @ lower post"
    by (simp only: lower_append)
  then show ?thesis by (simp only: contains_def sublist_appendI)
qed

lemma add_in_addition: "contains (lower (pre @ ''addition'' @ post)) (lower ''add'')"
proof -
  have "lower ''addition'' = lower ''add'' @ ''ition''" by code_simp
  then have "lower (pre @ ''addition'' @ post) = lower pre @ lower ''add'' @ (''ition'' @ lower post)"
    by (simp only: lower_append append_assoc)
  then show ?thesis by (simp only: contains_def sublist_appendI)
qed

section \<open>The claims on extraction\<close>

lemma analyze_python_module_readable:
  assumes "read_text fs py_file = Inr content"
  shows "analyze_python_module fs py_file =
           \<lparr>functions = concat (map (\<lambda>l. fst (analyze_line l ([], []))) (split content (CHR 0x0A))),
            classes = concat (map (\<lambda>l. snd (analyze_line l ([], []))) (split content (CHR 0x0A))),
            path = py_file, error = None\<rparr>"
  using assms by (simp add: analyze_python_module_def analyze_body_def foldl_analyze_line)

lemma analyze_python_module_unreadable:
  assumes "read_text fs py_file = Inl e"
  shows "analyze_python_module fs py_file = \<lparr>functions = [], classes = [], path = py_file, error = Some e\<rparr>"
  using assms by (simp add: analyze_python_module_def analyze_body_def)

lemma line_class:
  "startswith (strip raw) ''class '' \<Longrightarrow>
     analyze_line raw acc =
       (fst acc, snd acc @ [replace (hd (split (hd (split (strip raw) CHR ''('')) CHR '':'')) ''class '' ''''])"
  by (auto simp add: analyze_line_def Let_def startswith_def prefix_def)

text \<open>
  Claim C2. For the text of a reference file that can be read, the functions and the
  classes returned are what the lines contribute one by one, in line order. A line whose
  stripped form is \<^verbatim>\<open>def foo(x):\<close> contributes the function \<^verbatim>\<open>foo\<close>, one whose stripped
  form is \<^verbatim>\<open>def _hidden(x):\<close> contributes nothing, one whose stripped form is
  \<^verbatim>\<open>class Bar(Base):\<close> contributes the class \<^verbatim>\<open>Bar\<close>, and a class whose name starts
  with an underscore is extracted like any other class.
\<close>

theorem extraction_classifies_lines:
  "(read_text fs py_file = Inr content \<longrightarrow>
      functions (analyze_python_module fs py_file)
        = concat (map (\<lambda>l. fst (analyze_line l ([], []))) (split content (CHR 0x0A)))
    \<and> classes (analyze_python_module fs py_file)
        = concat (map (\<lambda>l. snd (analyze_line l ([], []))) (split content (CHR 0x0A))))
   \<and> (strip l1 = ''def foo(x):'' \<longrightarrow> analyze_line l1 acc = (fst acc @ [''foo''], snd acc))
   \<and> (strip l2 = ''def _hidden(x):'' \<longrightarrow> analyze_line l2 acc = acc)
   \<and> (strip l3 = ''class Bar(Base):'' \<longrightarrow> analyze_line l3 acc = (fst acc, snd acc @ [''Bar'']))
   \<and> (startswith (strip l4) ''class _'' \<longrightarrow>
        analyze_line l4 acc =
          (fst acc, snd acc @ [replace (hd (split (hd (split (strip l4) CHR ''('')) CHR '':'')) ''class '' '''']))"
proof -
  have "startswith (strip l4) ''class _'' \<Longrightarrow> startswith (strip l4) ''class ''"
    by (auto simp add: startswith_def prefix_def)
  then show ?thesis
    by (auto simp add: analyze_python_module_readable line_foo line_hidden line_Bar dest: line_class)
qed

theorem extraction_classifies_lines_witness:
  "read_text example_fs ''TO_REMOVE/reservoirpy/ops.py'' = Inr ops_py
   \<and> functions (analyze_python_module example_fs ''TO_REMOVE/reservoirpy/ops.py'') = [''foo'', ''zeta'', '''']
   \<and> classes (analyze_python_module example_fs ''TO_REMOVE/reservoirpy/ops.py'') = [''Bar'', ''_Priv'']
   \<and> strip ''  def foo(x):'' = ''def foo(x):''
   \<and> analyze_line ''  def foo(x):'' ([], []) = ([''foo''], [])
   \<and> strip ''def _hidden(x):  '' = ''def _hidden(x):''
   \<and> analyze_line ''def _hidden(x):  '' ([], []) = ([], [])
   \<and> strip ''class Bar(Base):'' = ''class Bar(Base):''
   \<and> analyze_line ''class Bar(Base):'' ([], []) = ([], [''Bar''])
   \<and> startswith (strip ''class _Priv:'') ''class _''
   \<and> analyze_line ''class _Priv:'' ([], []) = ([], [''_Priv''])"
proof -
  have h0: "read_text example_fs ''TO_REMOVE/reservoirpy/ops.py'' = Inr ops_py"
    by (simp add: example_fs_def)
  have h1: "strip ''  def foo(x):'' = ''def foo(x):''" by code_simp
  have h2: "strip ''def _hidden(x):  '' = ''def _hidden(x):''" by code_simp
  have h3: "strip ''class Bar(Base):'' = ''class Bar(Base):''" by code_simp
  have h4: "startswith (strip ''class _Priv:'') ''class _''" by code_simp
  have e1: "concat (map (\<lambda>l. fst (analyze_line l ([], []))) (split ops_py (CHR 0x0A))) = [''foo'', ''zeta'', '''']"
    by code_simp
  have e2: "concat (map (\<lambda>l. snd (analyze_line l ([], []))) (split ops_py (CHR 0x0A))) = [''Bar'', ''_Priv'']"
    by code_simp
  have e3: "replace (hd (split (hd (split (strip ''class _Priv:'') CHR ''('')) CHR '':'')) ''class '' '''' = ''_Priv''"
    by code_simp
  from extraction_classifies_lines
         [of example_fs "''TO_REMOVE/reservoirpy/ops.py''" ops_py "''  def foo(x):''" "([], [])"
             "''def _hidden(x):  ''" "''class Bar(Base):''" "''class _Priv:''"]
       h0 h1 h2 h3 h4 e1 e2 e3
  show ?thesis by simp
qed

lemma name_in_file_empty: "name_in_file fs '''' file = readable fs file"
  by (simp add: name_in_file_def readable_def lower_def split: sum.splits)

text \<open>
  Claim C10. A line whose stripped form starts with \<^verbatim>\<open>def (\<close> is a function declaration
  whose extracted name is the empty string, and the search for the empty name answers
  found with the location of the first candidate file that can be read (and not found
  when no candidate file can be read).
\<close>

theorem empty_name_found_in_first_readable_file:
  "(strip raw = ''def ('' @ rest \<longrightarrow> analyze_line raw acc = (fst acc @ [''''], snd acc))
   \<and> (find (\<lambda>(dir, file). readable fs file) (candidate_files fs hdr src) = Some (d, f) \<longrightarrow>
        check_cpp_equivalent fs '''' hdr src = (True, ''Found in '' @ relative_to fs f (parent fs d)))
   \<and> (find (\<lambda>(dir, file). readable fs file) (candidate_files fs hdr src) = None \<longrightarrow>
        check_cpp_equivalent fs '''' hdr src = (False, ''NOT FOUND''))"
  by (simp add: line_empty_name check_cpp_equivalent_find name_in_file_empty)

theorem empty_name_found_in_first_readable_file_witness:
  "strip ''  def ('' = ''def ('' @ ''''
   \<and> analyze_line ''  def ('' ([], []) = ([''''], [])
   \<and> find (\<lambda>(dir, file). readable example_fs file) (candidate_files example_fs ''include'' ''src'')
        = Some (''include'', ''include/a.hpp'')
   \<and> check_cpp_equivalent example_fs '''' ''include'' ''src'' = (True, ''Found in include/a.hpp'')
   \<and> find (\<lambda>(dir, file). readable example_fs file) (candidate_files example_fs ''lib'' ''src'') = None
   \<and> check_cpp_equivalent example_fs '''' ''lib'' ''src'' = (False, ''NOT FOUND'')"
proof -
  have h1: "strip ''  def ('' = ''def ('' @ ''''" by code_simp
  have h2: "find (\<lambda>(dir, file). readable example_fs file) (candidate_files example_fs ''include'' ''src'')
        = Some (''include'', ''include/a.hpp'')"
    by code_simp
  have h3: "find (\<lambda>(dir, file). readable example_fs file) (candidate_files example_fs ''lib'' ''src'') = None"
    by code_simp
  have e: "relative_to example_fs ''include/a.hpp'' (parent example_fs ''include'') = ''include/a.hpp''"
    by (simp add: example_fs_def)
  from empty_name_found_in_first_readable_file
         [of "''  def (''" "''''" "([], [])" example_fs "''include''" "''src''" "''include''" "''include/a.hpp''"]
       empty_name_found_in_first_readable_file
         [of "''  def (''" "''''" "([], [])" example_fs "''lib''" "''src''" "''include''" "''include/a.hpp''"]
       h1 h2 h3 e
  show ?thesis by simp
qed

section \<open>The claim on the search\<close>

lemma name_in_file_iff:
  "name_in_file fs item_name file
     \<longleftrightarrow> (\<exists>text. read_text fs file = Inr text \<and> sublist (lower item_name) (lower text))"
  by (simp add: name_in_file_def split: sum.splits)

text \<open>
  Claim C3. In both scripts the search answers found exactly when some candidate file
  of the traversal can be read and has the lower-cased name as a substring of its
  lower-cased text; the answer is that of the first such file in traversal order, with
  its location. A text containing \<^verbatim>\<open>FOO\<close> satisfies the search for \<^verbatim>\<open>foo\<close>, and a text
  containing \<^verbatim>\<open>addition\<close> satisfies the search for \<^verbatim>\<open>add\<close>.
\<close>

theorem search_reports_first_file_containing_name:
  "(fst (check_cpp_equivalent fs item_name hdr src)
      \<longleftrightarrow> (\<exists>file \<in> snd ` set (candidate_files fs hdr src). name_in_file fs item_name file))
   \<and> check_cpp_equivalent fs item_name hdr src =
       (case find (\<lambda>(dir, file). name_in_file fs item_name file) (candidate_files fs hdr src) of
          Some (dir, file) \<Rightarrow> (True, ''Found in '' @ relative_to fs file (parent fs dir))
        | None \<Rightarrow> (False, ''NOT FOUND''))
   \<and> (fst (check_cpp_equivalent_detailed fs item_name hdr src)
      \<longleftrightarrow> (\<exists>file \<in> snd ` set (candidate_files_detailed fs hdr src). name_in_file fs item_name file))
   \<and> check_cpp_equivalent_detailed fs item_name hdr src =
       (case find (\<lambda>(dir, file). name_in_file fs item_name file) (candidate_files_detailed fs hdr src) of
          Some (dir, file) \<Rightarrow> (True, ''Found in '' @ relative_to fs file dir)
        | None \<Rightarrow> (False, ''Not found''))
   \<and> (name_in_file fs item_name f
      \<longleftrightarrow> (\<exists>text. read_text fs f = Inr text \<and> sublist (lower item_name) (lower text)))
   \<and> contains (lower (pre @ ''FOO'' @ post)) (lower ''foo'')
   \<and> contains (lower (pre @ ''addition'' @ post)) (lower ''add'')"
  using found_iff [of fs item_name hdr src] check_cpp_equivalent_find [of fs item_name hdr src]
    found_detailed_iff [of fs item_name hdr src] check_cpp_equivalent_detailed_find [of fs item_name hdr src]
    name_in_file_iff [of fs item_name f] foo_in_FOO [of pre post] add_in_addition [of pre post]
  by blast

theorem search_reports_first_file_containing_name_witness:
  "''include/a.hpp'' \<in> snd ` set (candidate_files example_fs ''include'' ''src'')
   \<and> name_in_file example_fs ''add'' ''include/a.hpp''
   \<and> fst (check_cpp_equivalent example_fs ''add'' ''include'' ''src'')
   \<and> check_cpp_equivalent example_fs ''add'' ''include'' ''src'' = (True, ''Found in include/a.hpp'')
   \<and> ''include/a.hpp'' \<in> snd ` set (candidate_files_detailed example_fs ''include'' ''src'')
   \<and> fst (check_cpp_equivalent_detailed example_fs ''add'' ''include'' ''src'')"
proof -
  have h1: "''include/a.hpp'' \<in> snd ` set (candidate_files example_fs ''include'' ''src'')"
    by code_simp
  have h2: "name_in_file example_fs ''add'' ''include/a.hpp''"
    by code_simp
  have h3: "find (\<lambda>(dir, file). name_in_file example_fs ''add'' file) (candidate_files example_fs ''include'' ''src'')
              = Some (''include'', ''include/a.hpp'')"
    by code_simp
  have h4: "''include/a.hpp'' \<in> snd ` set (candidate_files_detailed example_fs ''include'' ''src'')"
    by code_simp
  have e: "relative_to example_fs ''include/a.hpp'' (parent example_fs ''include'') = ''include/a.hpp''"
    by (simp add: example_fs_def)
  note t = search_reports_first_file_containing_name
             [of example_fs "''add''" "''include''" "''src''" "''include/a.hpp''" "''''" "''''"]
  from t h1 h2 have a: "fst (check_cpp_equivalent example_fs ''add'' ''include'' ''src'')" by blast
  from t h3 e have b: "check_cpp_equivalent example_fs ''add'' ''include'' ''src'' = (True, ''Found in include/a.hpp'')"
    by simp
  from t h4 h2 have c: "fst (check_cpp_equivalent_detailed example_fs ''add'' ''include'' ''src'')" by blast
  from h1 h2 h4 a b c show ?thesis by blast
qed

section \<open>The claim on unreadable reference files\<close>

lemma check_module_unreadable:
  assumes "read_text fs (joinpath reservoirpy_dir m) = Inl e"
  shows "check_module fs st m = st"
  using assms by (simp add: check_module_def Let_def analyze_python_module_unreadable)

lemma check_module_detailed_unreadable:
  assumes "read_text fs (joinpath reservoirpy_dir_detailed m) = Inl e"
  shows "check_module_detailed fs vr m = vr"
  using assms by (simp add: check_module_detailed_def Let_def analyze_python_module_unreadable)

lemma error_analyze_python_module:
  "error (analyze_python_module fs py_file) = (case read_text fs py_file of Inl e \<Rightarrow> Some e | Inr content \<Rightarrow> None)"
  by (simp add: analyze_python_module_def analyze_body_def split: sum.splits prod.splits)

text \<open>
  Claim C7. Extraction always returns a dictionary: its \<open>error\<close> key is present exactly
  when the read failed. When the read of a reference file fails with message \<open>e\<close>, the
  result has empty function and class lists and records \<open>e\<close>; the loop over the modules
  leaves its state as it was for such a module and goes on with the modules after it.
\<close>

theorem unreadable_module_is_recorded_and_skipped:
  "error (analyze_python_module fs p) = (case read_text fs p of Inl e \<Rightarrow> Some e | Inr content \<Rightarrow> None)
   \<and> (read_text fs py_file = Inl e \<longrightarrow>
        analyze_body fs py_file = Inl e
      \<and> analyze_python_module fs py_file = \<lparr>functions = [], classes = [], path = py_file, error = Some e\<rparr>)
   \<and> (read_text fs (joinpath reservoirpy_dir m) = Inl e \<longrightarrow>
        check_module fs st m = st
      \<and> foldl (check_module fs) st (before @ m # after)
          = foldl (check_module fs) (foldl (check_module fs) st before) after)
   \<and> (read_text fs (joinpath reservoirpy_dir_detailed m) = Inl e \<longrightarrow>
        check_module_detailed fs vr m = vr
      \<and> foldl (check_module_detailed fs) vr (before @ m # after)
          = foldl (check_module_detailed fs) (foldl (check_module_detailed fs) vr before) after)"
  by (simp add: error_analyze_python_module analyze_python_module_unreadable check_module_unreadable
        check_module_detailed_unreadable analyze_body_def)

theorem unreadable_module_is_recorded_and_skipped_witness:
  "read_text example_fs (joinpath reservoirpy_dir ''model.py'') = Inl ''cannot read''
   \<and> analyze_python_module example_fs (joinpath reservoirpy_dir ''model.py'')
       = \<lparr>functions = [], classes = [], path = joinpath reservoirpy_dir ''model.py'', error = Some ''cannot read''\<rparr>
   \<and> check_module example_fs initial_state ''model.py'' = initial_state
   \<and> foldl (check_module example_fs) initial_state ([''node.py''] @ ''model.py'' # [''ops.py''])
       = foldl (check_module example_fs) initial_state [''node.py'', ''ops.py'']
   \<and> read_text example_fs (joinpath reservoirpy_dir_detailed ''model.py'') = Inl ''cannot read''
   \<and> check_module_detailed example_fs [] ''model.py'' = []"
proof -
  have h1: "read_text example_fs (joinpath reservoirpy_dir ''model.py'') = Inl ''cannot read''"
    by code_simp
  have h2: "read_text example_fs (joinpath reservoirpy_dir_detailed ''model.py'') = Inl ''cannot read''"
    by code_simp
  from unreadable_module_is_recorded_and_skipped
         [of example_fs "joinpath reservoirpy_dir ''model.py''" "joinpath reservoirpy_dir ''model.py''"
             "''cannot read''" "''model.py''" initial_state "[''node.py'']" "[''ops.py'']" "[]"]
       h1 h2
  show ?thesis by simp
qed

section \<open>The loop over the modules\<close>

lemma check_item_step:
  "check_item fs m (rs, ms) item =
     (rs @ [(item, check_cpp_equivalent fs item cpp_headers_dir cpp_src_dir)],
      ms @ (if has_cpp_equivalent fs item then [] else [entry_of (item, m)]))"
  by (cases "check_cpp_equivalent fs item cpp_headers_dir cpp_src_dir")
     (simp add: check_item_def has_cpp_equivalent_def entry_of_def)

lemma foldl_check_item:
  "foldl (check_item fs m) (rs, ms) items =
     (rs @ map (\<lambda>item. (item, check_cpp_equivalent fs item cpp_headers_dir cpp_src_dir)) items,
      ms @ map (\<lambda>item. entry_of (item, m)) (filter (\<lambda>item. \<not> has_cpp_equivalent fs item) items))"
proof (induction items arbitrary: rs ms)
  case Nil
  show ?case by simp
next
  case (Cons item items)
  show ?case by (simp add: check_item_step Cons.IH)
qed

lemma check_module_analyzable:
  assumes "analyzable fs m"
  shows "check_module fs st m =
           \<lparr>verification_results = AList.update m (results_of_module fs m) (verification_results st),
            missing =
              \<lparr>missing_functions = missing_functions (missing st)
                 @ map entry_of (filter (\<lambda>p. \<not> has_cpp_equivalent fs (fst p)) (extracted_from functions fs m)),
               missing_classes = missing_classes (missing st)
                 @ map entry_of (filter (\<lambda>p. \<not> has_cpp_equivalent fs (fst p)) (extracted_from classes fs m))\<rparr>\<rparr>"
  using assms
  by (simp add: check_module_def Let_def analyzable_def foldl_check_item results_of_module_def
        extracted_from_def filter_map comp_def)

lemma check_module_not_analyzable:
  assumes "\<not> analyzable fs m"
  shows "check_module fs st m = st"
  using assms by (auto simp add: check_module_def Let_def analyzable_def)

lemma extracted_Cons:
  "extracted kind fs (m # ms) =
     (if analyzable fs m then extracted_from kind fs m @ extracted kind fs ms else extracted kind fs ms)"
  by (simp add: extracted_def)

lemma extracted_Nil: "extracted kind fs [] = []"
  by (simp add: extracted_def)

lemma update_new_key: "k \<notin> fst ` set al \<Longrightarrow> AList.update k v al = al @ [(k, v)]"
  by (induction al) auto

lemma foldl_check_module:
  assumes "distinct ms" and "set ms \<inter> fst ` set (verification_results st) = {}"
  shows "foldl (check_module fs) st ms =
           \<lparr>verification_results =
              verification_results st @ map (\<lambda>m. (m, results_of_module fs m)) (filter (analyzable fs) ms),
            missing =
              \<lparr>missing_functions = missing_functions (missing st)
                 @ map entry_of (filter (\<lambda>p. \<not> has_cpp_equivalent fs (fst p)) (extracted functions fs ms)),
               missing_classes = missing_classes (missing st)
                 @ map entry_of (filter (\<lambda>p. \<not> has_cpp_equivalent fs (fst p)) (extracted classes fs ms))\<rparr>\<rparr>"
  using assms
proof (induction ms arbitrary: st)
  case Nil
  show ?case by (simp add: extracted_Nil)
next
  case (Cons m ms)
  show ?case
  proof (cases "analyzable fs m")
    case False
    with Cons.prems have "set ms \<inter> fst ` set (verification_results st) = {}" by auto
    with Cons.IH [of st] Cons.prems False show ?thesis
      by (simp add: check_module_not_analyzable extracted_Cons)
  next
    case True
    let ?st = "check_module fs st m"
    from Cons.prems have new: "m \<notin> fst ` set (verification_results st)" by auto
    have vr: "verification_results ?st = verification_results st @ [(m, results_of_module fs m)]"
      by (simp add: check_module_analyzable [OF True] update_new_key [OF new])
    have mf: "missing_functions (missing ?st) = missing_functions (missing st)
                @ map entry_of (filter (\<lambda>p. \<not> has_cpp_equivalent fs (fst p)) (extracted_from functions fs m))"
      by (simp add: check_module_analyzable [OF True])
    have mc: "missing_classes (missing ?st) = missing_classes (missing st)
                @ map entry_of (filter (\<lambda>p. \<not> has_cpp_equivalent fs (fst p)) (extracted_from classes fs m))"
      by (simp add: check_module_analyzable [OF True])
    from Cons.prems have d: "distinct ms" by simp
    from Cons.prems have "set ms \<inter> fst ` set (verification_results ?st) = {}"
      by (auto simp add: vr)
    from Cons.IH [OF d this]
    have "foldl (check_module fs) ?st ms =
           \<lparr>verification_results =
              verification_results ?st @ map (\<lambda>m. (m, results_of_module fs m)) (filter (analyzable fs) ms),
            missing =
              \<lparr>missing_functions = missing_functions (missing ?st)
                 @ map entry_of (filter (\<lambda>p. \<not> has_cpp_equivalent fs (fst p)) (extracted functions fs ms)),
               missing_classes = missing_classes (missing ?st)
                 @ map entry_of (filter (\<lambda>p. \<not> has_cpp_equivalent fs (fst p)) (extracted classes fs ms))\<rparr>\<rparr>" .
    then have "foldl (check_module fs) ?st ms =
           \<lparr>verification_results =
              (verification_results st @ [(m, results_of_module fs m)])
                @ map (\<lambda>m. (m, results_of_module fs m)) (filter (analyzable fs) ms),
            missing =
              \<lparr>missing_functions = (missing_functions (missing st)
                 @ map entry_of (filter (\<lambda>p. \<not> has_cpp_equivalent fs (fst p)) (extracted_from functions fs m)))
                 @ map entry_of (filter (\<lambda>p. \<not> has_cpp_equivalent fs (fst p)) (extracted functions fs ms)),
               missing_classes = (missing_classes (missing st)
                 @ map entry_of (filter (\<lambda>p. \<not> has_cpp_equivalent fs (fst p)) (extracted_from classes fs m)))
                 @ map entry_of (filter (\<lambda>p. \<not> has_cpp_equivalent fs (fst p)) (extracted classes fs ms))\<rparr>\<rparr>"
      by (simp only: vr mf mc)
    moreover have "foldl (check_module fs) st (m # ms) = foldl (check_module fs) ?st ms" by simp
    moreover have "extracted functions fs (m # ms) = extracted_from functions fs m @ extracted functions fs ms"
      using True by (simp add: extracted_Cons)
    moreover have "extracted classes fs (m # ms) = extracted_from classes fs m @ extracted classes fs ms"
      using True by (simp add: extracted_Cons)
    moreover have "filter (analyzable fs) (m # ms) = m # filter (analyzable fs) ms"
      using True by simp
    ultimately show ?thesis by simp
  qed
qed

lemma distinct_core_modules: "distinct core_modules"
  by (simp add: core_modules_def)

lemma analyzed_closed_form:
  "analyzed fs =
     \<lparr>verification_results = map (\<lambda>m. (m, results_of_module fs m)) (filter (analyzable fs) core_modules),
      missing =
        \<lparr>missing_functions =
           map entry_of (filter (\<lambda>p. \<not> has_cpp_equivalent fs (fst p)) (extracted functions fs core_modules)),
         missing_classes =
           map entry_of (filter (\<lambda>p. \<not> has_cpp_equivalent fs (fst p)) (extracted classes fs core_modules))\<rparr>\<rparr>"
  unfolding analyzed_def
  by (subst foldl_check_module) (simp_all add: distinct_core_modules initial_state_def)

lemma count_found_items:
  "sum_list (concat (map ((\<lambda>(item, has_cpp, location). if has_cpp then [1::nat] else [])
                           \<circ> (\<lambda>item. (item, check_cpp_equivalent fs item cpp_headers_dir cpp_src_dir))) items))
     = length (filter (has_cpp_equivalent fs) items)"
  by (induction items) (auto simp add: has_cpp_equivalent_def split: prod.splits)

lemma length_filter_extracted_from:
  "length (filter (\<lambda>p. has_cpp_equivalent fs (fst p)) (extracted_from kind fs m))
     = length (filter (has_cpp_equivalent fs) (kind (analyze_python_module fs (joinpath reservoirpy_dir m))))"
  by (simp add: extracted_from_def filter_map comp_def)

lemma total_functions_results:
  "total_functions (map (\<lambda>m. (m, results_of_module fs m)) ms)
     = length (concat (map (extracted_from functions fs) ms))"
  by (induction ms) (simp_all add: total_functions_def results_of_module_def extracted_from_def Let_def)

lemma total_classes_results:
  "total_classes (map (\<lambda>m. (m, results_of_module fs m)) ms)
     = length (concat (map (extracted_from classes fs) ms))"
  by (induction ms) (simp_all add: total_classes_def results_of_module_def extracted_from_def Let_def)

lemma implemented_functions_results:
  "implemented_functions (map (\<lambda>m. (m, results_of_module fs m)) ms)
     = length (filter (\<lambda>p. has_cpp_equivalent fs (fst p)) (concat (map (extracted_from functions fs) ms)))"
proof (induction ms)
  case Nil
  show ?case by (simp add: implemented_functions_def)
next
  case (Cons m ms)
  have "function_results (results_of_module fs m)
          = map (\<lambda>item. (item, check_cpp_equivalent fs item cpp_headers_dir cpp_src_dir))
                (functions (analyze_python_module fs (joinpath reservoirpy_dir m)))"
    by (simp add: results_of_module_def Let_def)
  with Cons.IH show ?case
    by (simp add: implemented_functions_def count_found_items length_filter_extracted_from)
qed

lemma implemented_classes_results:
  "implemented_classes (map (\<lambda>m. (m, results_of_module fs m)) ms)
     = length (filter (\<lambda>p. has_cpp_equivalent fs (fst p)) (concat (map (extracted_from classes fs) ms)))"
proof (induction ms)
  case Nil
  show ?case by (simp add: implemented_classes_def)
next
  case (Cons m ms)
  have "class_results (results_of_module fs m)
          = map (\<lambda>item. (item, check_cpp_equivalent fs item cpp_headers_dir cpp_src_dir))
                (classes (analyze_python_module fs (joinpath reservoirpy_dir m)))"
    by (simp add: results_of_module_def Let_def)
  with Cons.IH show ?case
    by (simp add: implemented_classes_def count_found_items length_filter_extracted_from)
qed

lemma verification_results_analyzed:
  "verification_results (analyzed fs)
     = map (\<lambda>m. (m, results_of_module fs m)) (filter (analyzable fs) core_modules)"
  by (simp add: analyzed_closed_form)

lemma missing_functions_analyzed:
  "missing_functions (missing (analyzed fs))
     = map entry_of (filter (\<lambda>p. \<not> has_cpp_equivalent fs (fst p)) (extracted functions fs core_modules))"
  by (simp add: analyzed_closed_form)

lemma missing_classes_analyzed:
  "missing_classes (missing (analyzed fs))
     = map entry_of (filter (\<lambda>p. \<not> has_cpp_equivalent fs (fst p)) (extracted classes fs core_modules))"
  by (simp add: analyzed_closed_form)

lemma total_functions_analyzed:
  "total_functions (verification_results (analyzed fs)) = length (extracted functions fs core_modules)"
  by (simp only: verification_results_analyzed total_functions_results extracted_def)

lemma total_classes_analyzed:
  "total_classes (verification_results (analyzed fs)) = length (extracted classes fs core_modules)"
  by (simp only: verification_results_analyzed total_classes_results extracted_def)

lemma implemented_functions_analyzed:
  "implemented_functions (verification_results (analyzed fs))
     = length (filter (\<lambda>p. has_cpp_equivalent fs (fst p)) (extracted functions fs core_modules))"
  by (simp only: verification_results_analyzed implemented_functions_results extracted_def)

lemma implemented_classes_analyzed:
  "implemented_classes (verification_results (analyzed fs))
     = length (filter (\<lambda>p. has_cpp_equivalent fs (fst p)) (extracted classes fs core_modules))"
  by (simp only: verification_results_analyzed implemented_classes_results extracted_def)

lemma found_missing_disjoint:
  "set (filter P xs) \<inter> set (filter (\<lambda>p. \<not> P p) xs) = {}"
  "set (filter P xs) \<union> set (filter (\<lambda>p. \<not> P p) xs) = set xs"
  "length (filter P xs) + length (filter (\<lambda>p. \<not> P p) xs) = length xs"
  by (auto simp add: sum_length_filter_compl)

lemma found_missing_names_disjoint:
  "fst ` set (filter (\<lambda>p. Q (fst p)) xs) \<inter> fst ` set (filter (\<lambda>p. \<not> Q (fst p)) xs) = {}"
  by auto

lemma count_missing_name:
  "length (filter (\<lambda>e. entry_name e = n) (map entry_of (filter (\<lambda>p. \<not> Q (fst p)) xs)))
     = (if Q n then 0 else length (filter (\<lambda>p. fst p = n) xs))"
  by (induction xs) (auto simp add: entry_of_def)

section \<open>The claims on the counters\<close>

text \<open>
  Claim C6. After the loop over the modules, for each kind: the missing list is the list
  of the extracted symbols that were not found, one entry per extracted occurrence, in
  order; the implemented count is the number of extracted occurrences that were found;
  the two add up to the total. The found and the missing occurrences are disjoint and
  together are all extracted occurrences, and no name is on both sides. Nothing is
  deduplicated: a name that is not found has as many missing entries as it has
  extracted occurrences, one per module that declares it.
\<close>

theorem found_and_missing_partition_extracted:
  "let st = analyzed fs;
       vr = verification_results st;
       fns = extracted functions fs core_modules;
       cls = extracted classes fs core_modules;
       found = (\<lambda>p. has_cpp_equivalent fs (fst p));
       missed = (\<lambda>p. \<not> has_cpp_equivalent fs (fst p))
   in vr = map (\<lambda>m. (m, results_of_module fs m)) (filter (analyzable fs) core_modules)
    \<and> missing_functions (missing st) = map entry_of (filter missed fns)
    \<and> missing_classes (missing st) = map entry_of (filter missed cls)
    \<and> implemented_functions vr = length (filter found fns)
    \<and> implemented_classes vr = length (filter found cls)
    \<and> total_functions vr = length fns
    \<and> total_classes vr = length cls
    \<and> implemented_functions vr + length (missing_functions (missing st)) = total_functions vr
    \<and> implemented_classes vr + length (missing_classes (missing st)) = total_classes vr
    \<and> set (filter found fns) \<inter> set (filter missed fns) = {}
    \<and> set (filter found fns) \<union> set (filter missed fns) = set fns
    \<and> fst ` set (filter found fns) \<inter> fst ` set (filter missed fns) = {}
    \<and> set (filter found cls) \<inter> set (filter missed cls) = {}
    \<and> set (filter found cls) \<union> set (filter missed cls) = set cls
    \<and> fst ` set (filter found cls) \<inter> fst ` set (filter missed cls) = {}
    \<and> length (filter (\<lambda>e. entry_name e = n) (missing_functions (missing st)))
        = (if has_cpp_equivalent fs n then 0 else length (filter (\<lambda>p. fst p = n) fns))
    \<and> length (filter (\<lambda>e. entry_name e = n) (missing_classes (missing st)))
        = (if has_cpp_equivalent fs n then 0 else length (filter (\<lambda>p. fst p = n) cls))"
proof -
  let ?fns = "extracted functions fs core_modules"
  let ?cls = "extracted classes fs core_modules"
  let ?found = "\<lambda>p. has_cpp_equivalent fs (fst p)"
  let ?missed = "\<lambda>p. \<not> has_cpp_equivalent fs (fst p)"
  have sf: "length (filter ?found ?fns) + length (map entry_of (filter ?missed ?fns)) = length ?fns"
    by (simp add: found_missing_disjoint(3))
  have sc: "length (filter ?found ?cls) + length (map entry_of (filter ?missed ?cls)) = length ?cls"
    by (simp add: found_missing_disjoint(3))
  have df: "set (filter ?found ?fns) \<inter> set (filter ?missed ?fns) = {}"
    by (rule found_missing_disjoint(1))
  have uf: "set (filter ?found ?fns) \<union> set (filter ?missed ?fns) = set ?fns"
    by (rule found_missing_disjoint(2))
  have nf: "fst ` set (filter ?found ?fns) \<inter> fst ` set (filter ?missed ?fns) = {}"
    by (rule found_missing_names_disjoint)
  have dc: "set (filter ?found ?cls) \<inter> set (filter ?missed ?cls) = {}"
    by (rule found_missing_disjoint(1))
  have uc: "set (filter ?found ?cls) \<union> set (filter ?missed ?cls) = set ?cls"
    by (rule found_missing_disjoint(2))
  have nc: "fst ` set (filter ?found ?cls) \<inter> fst ` set (filter ?missed ?cls) = {}"
    by (rule found_missing_names_disjoint)
  note cf = count_missing_name [of n "has_cpp_equivalent fs" ?fns]
  note cc = count_missing_name [of n "has_cpp_equivalent fs" ?cls]
  show ?thesis
    unfolding Let_def
    by (simp only: verification_results_analyzed [symmetric] missing_functions_analyzed missing_classes_analyzed
          implemented_functions_analyzed implemented_classes_analyzed total_functions_analyzed
          total_classes_analyzed sf sc df uf nf dc uc nc cf cc simp_thms)
qed

theorem found_and_missing_partition_extracted_witness:
  "extracted functions example_fs core_modules
     = [(''alpha'', ''node.py''), (''zeta'', ''node.py''), (''foo'', ''ops.py''), (''zeta'', ''ops.py''), ('''', ''ops.py'')]
   \<and> \<not> has_cpp_equivalent example_fs ''zeta''
   \<and> missing_functions (missing (analyzed example_fs))
       = [\<lparr>entry_name = ''zeta'', entry_module = ''node.py''\<rparr>, \<lparr>entry_name = ''zeta'', entry_module = ''ops.py''\<rparr>]
   \<and> implemented_functions (verification_results (analyzed example_fs)) = 3
   \<and> total_functions (verification_results (analyzed example_fs)) = 5
   \<and> length (filter (\<lambda>e. entry_name e = ''zeta'') (missing_functions (missing (analyzed example_fs)))) = 2"
proof -
  have e: "extracted functions example_fs core_modules
     = [(''alpha'', ''node.py''), (''zeta'', ''node.py''), (''foo'', ''ops.py''), (''zeta'', ''ops.py''), ('''', ''ops.py'')]"
    by code_simp
  have h: "map (has_cpp_equivalent example_fs) [''alpha'', ''zeta'', ''foo'', ''''] = [True, False, True, True]"
    by code_simp
  note t = found_and_missing_partition_extracted [of example_fs "''zeta''", unfolded Let_def]
  from t have "missing_functions (missing (analyzed example_fs))
       = map entry_of (filter (\<lambda>p. \<not> has_cpp_equivalent example_fs (fst p))
           (extracted functions example_fs core_modules))"
    by blast
  with e h have m: "missing_functions (missing (analyzed example_fs))
       = [\<lparr>entry_name = ''zeta'', entry_module = ''node.py''\<rparr>, \<lparr>entry_name = ''zeta'', entry_module = ''ops.py''\<rparr>]"
    by (simp add: entry_of_def)
  from t have "implemented_functions (verification_results (analyzed example_fs))
       = length (filter (\<lambda>p. has_cpp_equivalent example_fs (fst p)) (extracted functions example_fs core_modules))"
    by blast
  with e h have i: "implemented_functions (verification_results (analyzed example_fs)) = 3"
    by simp
  from t have "total_functions (verification_results (analyzed example_fs))
       = length (extracted functions example_fs core_modules)"
    by blast
  with e have n: "total_functions (verification_results (analyzed example_fs)) = 5"
    by simp
  from t have "length (filter (\<lambda>e. entry_name e = ''zeta'') (missing_functions (missing (analyzed example_fs))))
        = (if has_cpp_equivalent example_fs ''zeta'' then 0
           else length (filter (\<lambda>p. fst p = ''zeta'') (extracted functions example_fs core_modules)))"
    by blast
  with e h have c: "length (filter (\<lambda>e. entry_name e = ''zeta'') (missing_functions (missing (analyzed example_fs)))) = 2"
    by simp
  from h have z: "\<not> has_cpp_equivalent example_fs ''zeta''" by simp
  from e z m i n c show ?thesis by blast
qed

text \<open>
  Claim C1. The total and the implemented count of the summary are the number of
  extracted symbols and the number of those found; the coverage percentage is
  implemented / total * 100 when the total is positive and 100 when it is zero.
\<close>

theorem coverage_percentage_formula:
  "let vr = verification_results (analyzed fs);
       symbols = extracted functions fs core_modules @ extracted classes fs core_modules;
       total = length symbols;
       implemented = length (filter (\<lambda>p. has_cpp_equivalent fs (fst p)) symbols)
   in total = total_functions vr + total_classes vr
    \<and> implemented = implemented_functions vr + implemented_classes vr
    \<and> implemented \<le> total
    \<and> coverage_percentage vr = (if total > 0 then of_nat implemented / of_nat total * 100 else 100)"
  by (simp add: Let_def coverage_percentage_def total_functions_analyzed total_classes_analyzed
        implemented_functions_analyzed implemented_classes_analyzed add_mono)

theorem coverage_percentage_formula_witness:
  "length (extracted functions example_fs core_modules @ extracted classes example_fs core_modules) = 8
   \<and> coverage_percentage (verification_results (analyzed example_fs)) = 50
   \<and> length (extracted functions empty_fs core_modules @ extracted classes empty_fs core_modules) = 0
   \<and> coverage_percentage (verification_results (analyzed empty_fs)) = 100"
proof -
  have e: "extracted functions example_fs core_modules @ extracted classes example_fs core_modules
             = [(''alpha'', ''node.py''), (''zeta'', ''node.py''), (''foo'', ''ops.py''), (''zeta'', ''ops.py''),
                ('''', ''ops.py''), (''Gamma'', ''node.py''), (''Bar'', ''ops.py''), (''_Priv'', ''ops.py'')]"
    by code_simp
  have h: "map (has_cpp_equivalent example_fs) [''alpha'', ''zeta'', ''foo'', '''', ''Gamma'', ''Bar'', ''_Priv'']
             = [True, False, True, True, True, False, False]"
    by code_simp
  have z: "extracted functions empty_fs core_modules @ extracted classes empty_fs core_modules = []"
    by code_simp
  from coverage_percentage_formula [of example_fs, unfolded Let_def] e h
  have a: "coverage_percentage (verification_results (analyzed example_fs)) = 50"
    by simp
  from coverage_percentage_formula [of empty_fs, unfolded Let_def] z
  have b: "coverage_percentage (verification_results (analyzed empty_fs)) = 100"
    by simp
  from e z a b show ?thesis by simp
qed

section \<open>The artifacts\<close>

lemma unhex_hexdigit: "d < 16 \<Longrightarrow> unhex (hexdigit d) = Some d"
  by (auto simp add: unhex_def hexdigit_def Let_def)

lemma hexdigit_0: "hexdigit 0 = CHR ''0''"
  by code_simp

lemma unhex_0: "unhex CHR ''0'' = Some 0"
  by (simp add: unhex_def)

lemma scan_unicode_escape:
  assumes "n < 256"
  shows "scan (Escape acc) (CHR ''u'' # hexdigit (n div 4096 mod 16) # hexdigit (n div 256 mod 16)
                              # hexdigit (n div 16 mod 16) # hexdigit (n mod 16) # t)
           = scan (InString (char_of n # acc)) t"
proof -
  from assms have a: "n div 4096 mod 16 = 0" "n div 256 mod 16 = 0" "n div 16 mod 16 = n div 16"
    by simp_all
  have b: "unhex (hexdigit (n div 16)) = Some (n div 16)"
    using assms by (intro unhex_hexdigit) simp
  have c: "unhex (hexdigit (n mod 16)) = Some (n mod 16)"
    by (intro unhex_hexdigit) simp
  have d: "16 * (n div 16) + n mod 16 = n" by simp
  show ?thesis
    using assms by (simp add: a hexdigit_0 unhex_0 b c d)
qed

lemma scan_escape_char:
  "scan (InString acc) (escape_char c @ t) = scan (InString (c # acc)) t"
proof -
  have n: "(of_char c :: nat) < 256" by simp
  consider (short) "c \<in> {CHR 0x5C, CHR 0x22, CHR 0x08, CHR 0x0C, CHR 0x0A, CHR 0x0D, CHR 0x09}"
    | (plain) "c \<notin> {CHR 0x5C, CHR 0x22, CHR 0x08, CHR 0x0C, CHR 0x0A, CHR 0x0D, CHR 0x09}"
        "32 \<le> (of_char c :: nat) \<and> (of_char c :: nat) \<le> 126"
    | (unicode) "c \<notin> {CHR 0x5C, CHR 0x22, CHR 0x08, CHR 0x0C, CHR 0x0A, CHR 0x0D, CHR 0x09}"
        "\<not> (32 \<le> (of_char c :: nat) \<and> (of_char c :: nat) \<le> 126)"
    by blast
  then show ?thesis
  proof cases
    case short
    then show ?thesis by (auto simp add: escape_char_def)
  next
    case plain
    then show ?thesis by (auto simp add: escape_char_def Let_def)
  next
    case unicode
    then have "escape_char c = CHR 0x5C # CHR ''u'' # hexdigit (of_char c div 4096 mod 16)
                 # hexdigit (of_char c div 256 mod 16) # hexdigit (of_char c div 16 mod 16)
                 # [hexdigit (of_char c mod 16)]"
      by (simp add: escape_char_def Let_def)
    with unicode scan_unicode_escape [OF n, of acc t] show ?thesis
      by simp
  qed
qed

lemma scan_string_body:
  "scan (InString acc) (concat (map escape_char s) @ CHR 0x22 # rest)
     = map_option ((#) (Str (rev acc @ s))) (scan Between rest)"
proof (induction s arbitrary: acc)
  case Nil
  show ?case by simp
next
  case (Cons c s)
  show ?case by (simp add: scan_escape_char Cons.IH)
qed

lemma scan_encode_string:
  "scan Between (encode_string s @ rest) = map_option ((#) (Str s)) (scan Between rest)"
  using scan_string_body [of "[]" s rest] by (simp add: encode_string_def)

lemma scan_encode_item:
  "scan Between (encode_item item @ rest) = map_option ((@) (tokens_of_item item)) (scan Between rest)"
  by (cases "scan Between rest")
     (simp_all add: encode_item_def scan_encode_string tokens_of_item_def)

lemma scan_join:
  "scan Between (join '', '' (map encode_item items) @ rest)
     = map_option ((@) (tokens_of_items items)) (scan Between rest)"
proof (induction items rule: tokens_of_items.induct)
  case 1
  show ?case by (simp add: option.map_ident)
next
  case (2 item)
  show ?case by (simp add: scan_encode_item)
next
  case (3 item next_item items)
  then show ?case
    by (cases "scan Between rest") (simp_all add: scan_encode_item)
qed

lemma scan_json_dump:
  "scan Between (json_dump items) = Some (LBracket # tokens_of_items items @ [RBracket])"
  using scan_join [of items "'']''"] by (simp add: json_dump_def)

lemma item_of_members_entry:
  "item_of_members [(''name'', entry_name item), (''module'', entry_module item)] = Some item"
  by (auto simp add: item_of_members_def)

lemma parse_object_tokens:
  "parse_object (tokens_of_item item @ rest)
     = Some ([(''name'', entry_name item), (''module'', entry_module item)], rest)"
  by (simp add: tokens_of_item_def)

lemma parse_elements_tokens:
  "items \<noteq> [] \<Longrightarrow> parse_elements (tokens_of_items items @ [RBracket]) = Some items"
proof (induction items rule: tokens_of_items.induct)
  case 1
  then show ?case by simp
next
  case (2 item)
  show ?case
    by (subst parse_elements.simps) (simp add: parse_object_tokens item_of_members_entry)
next
  case (3 item next_item items)
  then show ?case
    by (subst parse_elements.simps) (simp add: parse_object_tokens item_of_members_entry)
qed

lemma json_load_json_dump: "json_load (json_dump items) = Some items"
proof (cases items)
  case Nil
  then show ?thesis by (simp add: json_load_def scan_json_dump)
next
  case (Cons item rest)
  then obtain ts where ts: "tokens_of_items items @ [RBracket] = LBrace # ts"
    by (cases rest) (simp_all add: tokens_of_item_def)
  from Cons have p: "parse_elements (tokens_of_items items @ [RBracket]) = Some items"
    by (intro parse_elements_tokens) simp
  have "scan Between (json_dump items) = Some (LBracket # LBrace # ts)"
    by (simp only: scan_json_dump ts)
  then have "json_load (json_dump items) = parse_elements (LBrace # ts)"
    by (simp add: json_load_def)
  with p ts show ?thesis by simp
qed

lemma main_writable:
  assumes "writable fs ''missing_functions.json''" and "writable fs ''missing_classes.json''"
  shows "main fs =
           Inr (coverage_percentage (verification_results (analyzed fs)) \<ge> 90,
                fs\<lparr>read_text := (read_text fs)
                      (''missing_functions.json'' := Inr (json_dump (missing_functions (missing (analyzed fs)))),
                       ''missing_classes.json'' := Inr (json_dump (missing_classes (missing (analyzed fs))))),
                   exists := (exists fs)(''missing_functions.json'' := True, ''missing_classes.json'' := True)\<rparr>)"
  using assms by (simp add: main_def write_json_def Let_def)

text \<open>
  Claim C9. When both artifact files can be written, \<^verbatim>\<open>main\<close> returns, and afterwards the
  whole text of each artifact is the dump of the missing list of its kind computed in
  this run, whatever the file held before; deserialising it gives back exactly that
  list.
\<close>

theorem artifacts_round_trip:
  assumes "writable fs ''missing_functions.json''" and "writable fs ''missing_classes.json''"
  shows "case main fs of
           Inl e \<Rightarrow> False
         | Inr (success, fs') \<Rightarrow>
             read_text fs' ''missing_functions.json''
               = Inr (json_dump (missing_functions (missing (analyzed fs))))
           \<and> read_text fs' ''missing_classes.json''
               = Inr (json_dump (missing_classes (missing (analyzed fs))))
           \<and> load_artifact fs' ''missing_functions.json'' = Some (missing_functions (missing (analyzed fs)))
           \<and> load_artifact fs' ''missing_classes.json'' = Some (missing_classes (missing (analyzed fs)))"
  by (simp add: main_writable [OF assms] load_artifact_def json_load_json_dump)

theorem artifacts_round_trip_witness:
  "writable stale_fs ''missing_functions.json'' \<and> writable stale_fs ''missing_classes.json''
   \<and> load_artifact stale_fs ''missing_functions.json'' = Some [\<lparr>entry_name = ''old'', entry_module = ''old.py''\<rparr>]
   \<and> (case main stale_fs of
         Inl e \<Rightarrow> False
       | Inr (success, fs') \<Rightarrow>
           load_artifact fs' ''missing_functions.json''
             = Some [\<lparr>entry_name = ''zeta'', entry_module = ''node.py''\<rparr>,
                     \<lparr>entry_name = ''zeta'', entry_module = ''ops.py''\<rparr>]
         \<and> load_artifact fs' ''missing_classes.json''
             = Some [\<lparr>entry_name = ''Bar'', entry_module = ''ops.py''\<rparr>,
                     \<lparr>entry_name = ''_Priv'', entry_module = ''ops.py''\<rparr>])"
proof -
  have w1: "writable stale_fs ''missing_functions.json''"
    by (simp add: stale_fs_def example_fs_def)
  have w2: "writable stale_fs ''missing_classes.json''"
    by (simp add: stale_fs_def example_fs_def)
  have old: "load_artifact stale_fs ''missing_functions.json'' = Some [\<lparr>entry_name = ''old'', entry_module = ''old.py''\<rparr>]"
    by code_simp
  have m1: "missing_functions (missing (analyzed stale_fs))
              = [\<lparr>entry_name = ''zeta'', entry_module = ''node.py''\<rparr>,
                 \<lparr>entry_name = ''zeta'', entry_module = ''ops.py''\<rparr>]"
    by code_simp
  have m2: "missing_classes (missing (analyzed stale_fs))
              = [\<lparr>entry_name = ''Bar'', entry_module = ''ops.py''\<rparr>,
                 \<lparr>entry_name = ''_Priv'', entry_module = ''ops.py''\<rparr>]"
    by code_simp
  from artifacts_round_trip [OF w1 w2] m1 m2
  have "case main stale_fs of
         Inl e \<Rightarrow> False
       | Inr (success, fs') \<Rightarrow>
           load_artifact fs' ''missing_functions.json''
             = Some [\<lparr>entry_name = ''zeta'', entry_module = ''node.py''\<rparr>,
                     \<lparr>entry_name = ''zeta'', entry_module = ''ops.py''\<rparr>]
         \<and> load_artifact fs' ''missing_classes.json''
             = Some [\<lparr>entry_name = ''Bar'', entry_module = ''ops.py''\<rparr>,
                     \<lparr>entry_name = ''_Priv'', entry_module = ''ops.py''\<rparr>]"
    by (auto split: sum.splits prod.splits)
  with w1 w2 old show ?thesis by blast
qed

section \<open>The outcome and the end of the process\<close>

lemma ratio_threshold:
  "((of_nat i :: rat) \<ge> (9 / 10) * of_nat t)
     = ((if t > 0 then (of_nat i :: rat) / of_nat t * 100 else 100) \<ge> 90)"
proof (cases "t > 0")
  case True
  then have "(0 :: rat) < of_nat t" by simp
  then have "((of_nat i :: rat) / of_nat t * 100 \<ge> 90) = ((of_nat i :: rat) * 100 \<ge> 90 * of_nat t)"
    by (simp add: pos_le_divide_eq)
  with True show ?thesis by auto
next
  case False
  then show ?thesis by simp
qed

lemma main_detailed_pass:
  "main_detailed fs = spec_pass (coverage_percentage (analyzed_detailed fs)) 90"
proof -
  define i where "i = implemented_functions (analyzed_detailed fs) + implemented_classes (analyzed_detailed fs)"
  define t where "t = total_functions (analyzed_detailed fs) + total_classes (analyzed_detailed fs)"
  have "main_detailed fs = ((of_nat i :: rat) \<ge> (9 / 10) * of_nat t)"
    unfolding main_detailed_def Let_def i_def t_def by simp
  also have "\<dots> = ((if t > 0 then (of_nat i :: rat) / of_nat t * 100 else 100) \<ge> 90)"
    by (rule ratio_threshold)
  also have "\<dots> = spec_pass (coverage_percentage (analyzed_detailed fs)) 90"
    unfolding spec_pass_def coverage_percentage_def i_def t_def by simp
  finally show ?thesis .
qed

lemma main_outcome:
  "map_sum id fst (main fs) = Inr success \<Longrightarrow>
     success = spec_pass (coverage_percentage (verification_results (analyzed fs))) 90"
  by (auto simp add: main_def write_json_def Let_def spec_pass_def split: if_splits)

lemma coverage_example: "coverage_percentage (verification_results (analyzed example_fs)) = 50"
  by code_simp

lemma main_example: "map_sum id fst (main example_fs) = Inr False"
proof -
  have "writable example_fs ''missing_functions.json''" "writable example_fs ''missing_classes.json''"
    by (simp_all add: example_fs_def)
  from main_writable [OF this] show ?thesis by (simp add: coverage_example)
qed

text \<open>
  Claim C4, as stated, fails: the threshold is not an input. On the example file system
  the coverage is 50 percent; an emitter configured with the threshold 50 would pass,
  \<^verbatim>\<open>main\<close> returns \<^verbatim>\<open>False\<close>.
\<close>

theorem threshold_is_not_configurable_counterexample:
  "map_sum id fst (main example_fs)
     \<noteq> Inr (spec_pass (coverage_percentage (verification_results (analyzed example_fs))) 50)"
  by (simp add: main_example coverage_example spec_pass_def)

text \<open>
  Claim C4, amended. The value \<^verbatim>\<open>main\<close> returns is the comparison of the coverage
  percentage with the constant 90, in both scripts: the detailed script compares the
  implemented count with 0.9 times the total, which is the same test.
\<close>

theorem pass_is_percentage_at_least_90:
  "(map_sum id fst (main fs) = Inr success \<longrightarrow>
      success = spec_pass (coverage_percentage (verification_results (analyzed fs))) 90)
   \<and> main_detailed fs = spec_pass (coverage_percentage (analyzed_detailed fs)) 90"
  using main_outcome [of fs success] main_detailed_pass [of fs] by blast

theorem pass_is_percentage_at_least_90_witness:
  "map_sum id fst (main example_fs) = Inr False
   \<and> \<not> spec_pass (coverage_percentage (verification_results (analyzed example_fs))) 90
   \<and> main_detailed example_fs
   \<and> spec_pass (coverage_percentage (analyzed_detailed example_fs)) 90"
proof -
  have d: "main_detailed example_fs" by code_simp
  from pass_is_percentage_at_least_90 [of example_fs False] main_example d
  show ?thesis by simp
qed

text \<open>
  Claim C5, as stated, fails: no flag selects the exit behaviour. When \<^verbatim>\<open>main\<close> returns
  \<^verbatim>\<open>False\<close>, \<^verbatim>\<open>test_verification.py\<close> cannot behave as the advisory policy does and the
  detailed script cannot behave as the gating policy does.
\<close>

theorem exit_policy_is_not_a_flag_counterexample:
  "(test_verification_entry (Inr False) = Exit 0) \<noteq> spec_exit_success Advisory False
   \<and> (snd (detailed_verification_entry (Inr False)) = Exit 0) \<noteq> spec_exit_success Gating False"
  by (simp add: test_verification_entry_def detailed_verification_entry_def spec_exit_success_def)

text \<open>
  Claim C5, amended. Each script fixes one policy in its \<^verbatim>\<open>__main__\<close> block:
  \<^verbatim>\<open>test_verification.py\<close> is gating, it exits with 0 exactly when \<^verbatim>\<open>main\<close> returns \<^verbatim>\<open>True\<close>
  and with 1 otherwise; the detailed script is advisory, it exits with 0 on every
  outcome of \<^verbatim>\<open>main\<close>. In both the block receives what \<^verbatim>\<open>main\<close> returned.
\<close>

theorem each_script_fixes_its_exit_policy:
  "(test_verification_entry (Inr pass) = Exit 0) = spec_exit_success Gating pass
   \<and> test_verification_entry (Inr pass) = Exit (if pass then 0 else 1)
   \<and> (snd (detailed_verification_entry (Inr pass)) = Exit 0) = spec_exit_success Advisory pass
   \<and> snd (detailed_verification_entry outcome) = Exit 0
   \<and> test_verification_script fs = test_verification_entry (map_sum id fst (main fs))
   \<and> detailed_verification_script fs = detailed_verification_entry (Inr (main_detailed fs))"
  by (simp add: test_verification_entry_def detailed_verification_entry_def spec_exit_success_def
        test_verification_script_def detailed_verification_script_def split: sum.splits)

text \<open>
  Claim C8, as stated, fails for \<^verbatim>\<open>test_verification.py\<close>: where the artifacts cannot be
  written, the exception raised in \<^verbatim>\<open>main\<close> leaves the script uncaught.
\<close>

theorem unhandled_fault_counterexample:
  "test_verification_script readonly_fs = Unhandled ''OSError: missing_functions.json''"
  by (simp add: test_verification_script_def test_verification_entry_def main_def write_json_def
        readonly_fs_def Let_def)

text \<open>
  Claim C8, amended. The detailed script ends with exit code 0 on every outcome of
  \<^verbatim>\<open>main\<close>, and when \<^verbatim>\<open>main\<close> raised it prints the error first;
  \<^verbatim>\<open>test_verification.py\<close> has no handler, an exception of \<^verbatim>\<open>main\<close> propagates.
\<close>

theorem detailed_script_catches_faults:
  "snd (detailed_verification_entry outcome) = Exit 0
   \<and> detailed_verification_entry (Inl e)
       = ([''Error encountered during functionality verification: '' @ e,
           ''Exiting successfully despite error - artifact generation continues.''], Exit 0)
   \<and> test_verification_entry (Inl e) = Unhandled e"
  by (simp add: detailed_verification_entry_def test_verification_entry_def split: sum.splits)

end
